theory Spec2Isabelle
  imports Complex_Main
begin

section \<open>Data model\<close>

text \<open>
  The notebook \<^verbatim>\<open>smoke_layer.ipynb\<close> works on xarray DataArrays over the two dimensions
  \<^verbatim>\<open>(lat, lon)\<close>. A cell holds a floating-point number; the model keeps the one
  non-number that the code treats specially (NaN) and takes every other value as a real,
  so rounding and infinities are outside the model.
\<close>

datatype fval = NaN | Val real

fun fmul :: "fval \<Rightarrow> fval \<Rightarrow> fval" where
  "fmul (Val x) (Val y) = Val (x * y)"
| "fmul _ _ = NaN"

fun fsub :: "fval \<Rightarrow> fval \<Rightarrow> fval" where
  "fsub (Val x) (Val y) = Val (x - y)"
| "fsub _ _ = NaN"

fun fexp :: "fval \<Rightarrow> fval" where
  "fexp (Val x) = Val (exp x)"
| "fexp NaN = NaN"

text \<open>
  A DataArray: the index coordinates \<open>lat\<close> and \<open>lon\<close>, the other coordinates that lie
  along the \<open>lon\<close> dimension (a dictionary from name to values), and the values, one row
  per latitude. xarray keeps the shape of the values equal to the lengths of the
  coordinates; \<open>wf_raster\<close> is that invariant.
\<close>

record raster =
  lat :: "real list"
  lon :: "real list"
  aux_coords :: "string \<rightharpoonup> real list"
  vals :: "fval list list"

definition wf_raster :: "raster \<Rightarrow> bool" where
  "wf_raster r \<longleftrightarrow>
     length (vals r) = length (lat r) \<and>
     (\<forall>row \<in> set (vals r). length row = length (lon r)) \<and>
     (\<forall>k c. aux_coords r k = Some c \<longrightarrow> length c = length (lon r))"

datatype error =
    InvalidIndexError
  | KeyError
  | ValueError
  | TypeError
  | IndexError
  | AttributeError
  | NameError string
  | FileNotFoundError string
  | OutsideModel

fun index_of :: "'a list \<Rightarrow> 'a \<Rightarrow> nat" where
  "index_of [] x = 0"
| "index_of (y # ys) x = (if x = y then 0 else Suc (index_of ys x))"

section \<open>Grid Normalizer: \<^verbatim>\<open>fix_lon\<close>\<close>

text \<open>
  \<^verbatim>\<open>xr.where(ds[lon_name] > 180, ds[lon_name] - 360, ds[lon_name])\<close>
\<close>

definition adjust_lon :: "real \<Rightarrow> real" where
  "adjust_lon l = (if l > 180 then l - 360 else l)"

text \<open>
  \<^verbatim>\<open>.sel(**{'_longitude_adjusted': labels})\<close> with a list of labels: pandas looks the
  labels up with \<^verbatim>\<open>get_indexer\<close>, which refuses an index with repeated values, and
  xarray raises KeyError for a label that is not in the index. The result takes, for each
  requested label, the position that label has in the index.
\<close>

definition sel_positions :: "real list \<Rightarrow> real list \<Rightarrow> error + nat list" where
  "sel_positions idx labels =
     (if \<not> distinct idx then Inl InvalidIndexError
      else if \<not> set labels \<subseteq> set idx then Inl KeyError
      else Inr (map (index_of idx) labels))"

definition take_along :: "nat list \<Rightarrow> 'a list \<Rightarrow> 'a list" where
  "take_along ps xs = map (\<lambda>p. xs ! p) ps"

text \<open>
  \<^verbatim>\<open>fix_lon\<close> first stores the adjusted longitudes as the coordinate
  \<^verbatim>\<open>_longitude_adjusted\<close> of the object it was given
  (\<^verbatim>\<open>ds['_longitude_adjusted'] = ...\<close>), and only then builds a new object by
  \<^verbatim>\<open>swap_dims\<close>, \<^verbatim>\<open>sel\<close> on the sorted adjusted values, \<^verbatim>\<open>drop\<close> and
  \<^verbatim>\<open>rename\<close>. The model returns both: the caller's object as it is after the call, and
  the result (or the exception that \<^verbatim>\<open>sel\<close> raised).
\<close>

definition fix_lon :: "raster \<Rightarrow> raster \<times> (error + raster)" where
  "fix_lon ds =
     (let adj = map adjust_lon (lon ds);
          ds1 = ds\<lparr>aux_coords := (aux_coords ds)(''_longitude_adjusted'' \<mapsto> adj)\<rparr>;
          labels = sort adj
      in (ds1,
          case sel_positions adj labels of
            Inl e \<Rightarrow> Inl e
          | Inr ps \<Rightarrow>
              Inr \<lparr>lat = lat ds1,
                   lon = labels,
                   aux_coords = (\<lambda>k. map_option (take_along ps) (aux_coords ds1 k))
                                  (''_longitude_adjusted'' := None),
                   vals = map (take_along ps) (vals ds1)\<rparr>))"

text \<open>The value \<^verbatim>\<open>fix_lon\<close> returns, and the normalizer applied twice.\<close>

definition normalize :: "raster \<Rightarrow> error + raster" where
  "normalize ds = snd (fix_lon ds)"

definition normalize_twice :: "raster \<Rightarrow> error + raster" where
  "normalize_twice ds = (case normalize ds of Inl e \<Rightarrow> Inl e | Inr ds' \<Rightarrow> normalize ds')"

section \<open>Mortality Calculator: \<^verbatim>\<open>mortality\<close>\<close>

text \<open>
  Arithmetic between two DataArrays aligns them first, with xarray's default
  \<^verbatim>\<open>arithmetic_join = "inner"\<close>: along each dimension, equal indexes are kept as they
  are; different indexes are replaced by their intersection, in the order of the left
  operand, and both operands are reindexed to it. An index with repeated values cannot be
  reindexed (ValueError). \<open>join_positions\<close> gives, for each label of the joined index,
  its position in the left and in the right operand.
\<close>

definition join_positions :: "real list \<Rightarrow> real list \<Rightarrow> error + (nat \<times> nat) list" where
  "join_positions xs ys =
     (if xs = ys then Inr (map (\<lambda>i. (i, i)) [0..<length xs])
      else if \<not> (distinct xs \<and> distinct ys) then Inl ValueError
      else Inr (map (\<lambda>l. (index_of xs l, index_of ys l)) (filter (\<lambda>l. l \<in> set ys) xs)))"

text \<open>
  Coordinates that are not indexes are merged with \<^verbatim>\<open>compat = "minimal"\<close>: one that
  only one operand has is kept, one that both have is kept when the two agree and dropped
  when they differ.
\<close>

definition merge_aux ::
  "(nat \<times> nat) list \<Rightarrow> real list option \<Rightarrow> real list option \<Rightarrow> real list option" where
  "merge_aux ps u v =
     (case (u, v) of
        (None, None) \<Rightarrow> None
      | (Some c, None) \<Rightarrow> Some (take_along (map fst ps) c)
      | (None, Some d) \<Rightarrow> Some (take_along (map snd ps) d)
      | (Some c, Some d) \<Rightarrow>
          (if take_along (map fst ps) c = take_along (map snd ps) d
           then Some (take_along (map fst ps) c) else None))"

definition xr_binop :: "(fval \<Rightarrow> fval \<Rightarrow> fval) \<Rightarrow> raster \<Rightarrow> raster \<Rightarrow> error + raster" where
  "xr_binop f a b =
     (case join_positions (lat a) (lat b) of
        Inl e \<Rightarrow> Inl e
      | Inr lats \<Rightarrow>
          (case join_positions (lon a) (lon b) of
             Inl e \<Rightarrow> Inl e
           | Inr lons \<Rightarrow>
               Inr \<lparr>lat = take_along (map fst lats) (lat a),
                    lon = take_along (map fst lons) (lon a),
                    aux_coords = (\<lambda>k. merge_aux lons (aux_coords a k) (aux_coords b k)),
                    vals = map (\<lambda>(ia, ib).
                             map (\<lambda>(ja, jb). f (vals a ! ia ! ja) (vals b ! ib ! jb)) lons)
                             lats\<rparr>))"

text \<open>An operation with a scalar, and \<^verbatim>\<open>np.exp\<close>, act on every cell and keep the coordinates.\<close>

definition xr_map :: "(fval \<Rightarrow> fval) \<Rightarrow> raster \<Rightarrow> raster" where
  "xr_map f a = a\<lparr>vals := map (map f) (vals a)\<rparr>"

text \<open>
  \<^verbatim>\<open>1 - np.exp(-1.1 * pm25)\<close> at one cell.
\<close>

definition response :: "fval \<Rightarrow> fval" where
  "response x = fsub (Val 1) (fexp (fmul (Val (- 1.1)) x))"

text \<open>
  \<^verbatim>\<open>temp_ds = b * (1-np.exp(-1.1 * (pm25))) * population\<close>. The parameters \<^verbatim>\<open>b\<close> and
  \<^verbatim>\<open>population\<close> default to \<^verbatim>\<open>None\<close>, and arithmetic with \<^verbatim>\<open>None\<close> raises TypeError.
  The assignment \<^verbatim>\<open>temp_ds['lon'] = temp_ds['lon']\<close> that follows changes nothing.
\<close>

definition mortality :: "raster \<Rightarrow> raster option \<Rightarrow> raster option \<Rightarrow> error + raster" where
  "mortality pm25 b population =
     (case b of
        None \<Rightarrow> Inl TypeError
      | Some b' \<Rightarrow>
          (case xr_binop fmul b' (xr_map response pm25) of
             Inl e \<Rightarrow> Inl e
           | Inr t \<Rightarrow>
               (case population of
                  None \<Rightarrow> Inl TypeError
                | Some p \<Rightarrow> xr_binop fmul t p)))"

section \<open>Country polygons\<close>

text \<open>
  The country geometries are shapely polygons and multi-polygons, and the code asks
  \<^verbatim>\<open>country_polygon.contains(point)\<close>. For a point, shapely's \<^verbatim>\<open>contains\<close> holds exactly
  when the point lies in the interior of the geometry; a point on the boundary is not
  contained. A ring is the list of its vertices, closed by the edge from the last back to
  the first; a point is \<open>(x, y)\<close>, that is \<open>(lon, lat)\<close>.
\<close>

type_synonym point = "real \<times> real"
type_synonym ring = "point list"

datatype polygon = Polygon (shell: ring) (holes: "ring list")

datatype geometry = PolygonGeom polygon | MultiPolygon "polygon list"

fun polygons_of :: "geometry \<Rightarrow> polygon list" where
  "polygons_of (PolygonGeom p) = [p]"
| "polygons_of (MultiPolygon ps) = ps"

definition edges :: "ring \<Rightarrow> (point \<times> point) list" where
  "edges r = zip r (rotate1 r)"

fun on_segment :: "point \<Rightarrow> point \<times> point \<Rightarrow> bool" where
  "on_segment (px, py) ((ax, ay), (bx, by)) \<longleftrightarrow>
     (bx - ax) * (py - ay) - (by - ay) * (px - ax) = 0 \<and>
     min ax bx \<le> px \<and> px \<le> max ax bx \<and> min ay by \<le> py \<and> py \<le> max ay by"

definition on_ring :: "point \<Rightarrow> ring \<Rightarrow> bool" where
  "on_ring p r = list_ex (on_segment p) (edges r)"

text \<open>The horizontal ray from the point to the right crosses the edge.\<close>

fun crosses :: "point \<Rightarrow> point \<times> point \<Rightarrow> bool" where
  "crosses (px, py) ((ax, ay), (bx, by)) \<longleftrightarrow>
     ((ay > py) \<noteq> (by > py)) \<and> px < ax + (py - ay) * (bx - ax) / (by - ay)"

definition inside_ring :: "point \<Rightarrow> ring \<Rightarrow> bool" where
  "inside_ring p r = odd (length (filter (crosses p) (edges r)))"

definition in_interior :: "polygon \<Rightarrow> point \<Rightarrow> bool" where
  "in_interior poly p \<longleftrightarrow>
     \<not> on_ring p (shell poly) \<and> inside_ring p (shell poly) \<and>
     list_all (\<lambda>h. \<not> on_ring p h \<and> \<not> inside_ring p h) (holes poly)"

definition on_boundary :: "polygon \<Rightarrow> point \<Rightarrow> bool" where
  "on_boundary poly p \<longleftrightarrow> on_ring p (shell poly) \<or> list_ex (on_ring p) (holes poly)"

definition contains :: "geometry \<Rightarrow> point \<Rightarrow> bool" where
  "contains g p = list_ex (\<lambda>poly. in_interior poly p) (polygons_of g)"

text \<open>
  Closed containment, the reading of the specification: interior or boundary. The code
  never calls it; it is here to be compared with \<open>contains\<close>.
\<close>

definition closed_contains :: "geometry \<Rightarrow> point \<Rightarrow> bool" where
  "closed_contains g p =
     list_ex (\<lambda>poly. in_interior poly p \<or> on_boundary poly p) (polygons_of g)"

section \<open>Country Aggregator: \<^verbatim>\<open>sum_within_country\<close>\<close>

text \<open>A record of the shapefile: \<^verbatim>\<open>country_attr.attributes\<close> is a dictionary.\<close>

record country_record =
  attributes :: "string \<rightharpoonup> string"

text \<open>
  \<^verbatim>\<open>np.meshgrid(lats, lons, indexing="ij")\<close>, ravelled, and
  \<^verbatim>\<open>Point(lon, lat)\<close> for each pair: the cell centres, row by row.
\<close>

definition grid_points :: "raster \<Rightarrow> point list" where
  "grid_points d = concat (map (\<lambda>la. map (\<lambda>lo. (lo, la)) (lon d)) (lat d))"

definition ravel :: "fval list list \<Rightarrow> fval list" where
  "ravel vs = concat vs"

text \<open>
  \<^verbatim>\<open>data.values.ravel()[inside_country]\<close>, where \<^verbatim>\<open>inside_country\<close> is
  \<^verbatim>\<open>np.array([country_polygon.contains(point) for point in points])\<close>. With no points
  the list is empty and numpy makes a float64 array of it, which it refuses as an index
  (IndexError); a boolean array of another length than the data is refused as well.
\<close>

definition bool_index :: "fval list \<Rightarrow> bool list \<Rightarrow> error + fval list" where
  "bool_index xs m =
     (if m = [] then Inl IndexError
      else if length m \<noteq> length xs then Inl IndexError
      else Inr (map fst (filter snd (zip xs m))))"

fun nan_to_zero :: "fval \<Rightarrow> real" where
  "nan_to_zero NaN = 0"
| "nan_to_zero (Val x) = x"

definition nansum :: "fval list \<Rightarrow> real" where
  "nansum xs = sum_list (map nan_to_zero xs)"

text \<open>
  The body of \<^verbatim>\<open>for country, country_attr in zip(countries, country_info)\<close>. The
  result lists \<^verbatim>\<open>country_names\<close> and \<^verbatim>\<open>country_sums\<close> grow together, so the pandas
  Series that is returned is a list of (name, sum) pairs.
\<close>

fun country_loop :: "raster \<Rightarrow> (geometry \<times> country_record) list \<Rightarrow> error + (string \<times> real) list" where
  "country_loop data [] = Inr []"
| "country_loop data ((country, country_attr) # rest) =
     (case attributes country_attr ''NAME'' of
        None \<Rightarrow> Inl KeyError
      | Some country_name \<Rightarrow>
          (let points = grid_points data;
               inside_country = map (contains country) points
           in case bool_index (ravel (vals data)) inside_country of
                Inl e \<Rightarrow> Inl e
              | Inr inside_values \<Rightarrow>
                  (case country_loop data rest of
                     Inl e \<Rightarrow> Inl e
                   | Inr series \<Rightarrow> Inr ((country_name, nansum inside_values) # series))))"

text \<open>
  \<^verbatim>\<open>sum_within_country(data, countries)\<close>. The list \<^verbatim>\<open>country_info\<close> is not a parameter
  of the Python function: it is read inside the function from the Natural Earth
  \<^verbatim>\<open>admin_0_countries\<close> shapefile. The first argument of the model is the content of that
  shapefile.
\<close>

definition sum_within_country ::
  "country_record list \<Rightarrow> raster \<Rightarrow> geometry list \<Rightarrow> error + (string \<times> real) list" where
  "sum_within_country country_info data countries = country_loop data (zip countries country_info)"

section \<open>Scenario Pipeline: the notebook's cells\<close>

text \<open>
  The pipeline is the sequence of notebook cells that load the rasters, compute the
  mortality rasters, aggregate them by country and write the CSV files. The cells share
  the notebook's global variables, so the state is the dictionary of those variables
  together with the CSV files written so far. A variable is unbound, bound to
  \<^verbatim>\<open>None\<close>, or bound to a value.
\<close>

datatype pyval =
    PyNone
  | DataArray raster
  | Series "(string \<times> real) list"
  | GeometryList "geometry list"
  | RecordList "country_record list"
  | Str string

text \<open>
  What the notebook reads: the netCDF files under \<^verbatim>\<open>data_dir\<close>, by file name, each
  as the DataArray that the loading expression extracts from it (for a PM2.5 file the
  time mean \<^verbatim>\<open>['pm25'].mean(axis=0)\<close>), a missing file being absent from the map; and
  the Natural Earth shapefile with its geometries and records, \<open>None\<close> when it cannot be
  read.
\<close>

record world =
  datasets :: "string \<rightharpoonup> raster"
  natural_earth :: "(geometry list \<times> country_record list) option"

record notebook =
  vars :: "string \<rightharpoonup> pyval"
  csv_files :: "string \<rightharpoonup> (string \<times> real) list"

text \<open>
  A statement maps the state to the state it leaves and the exception it raised, if any.
  What a statement did before it raised stays done.
\<close>

type_synonym stmt = "notebook \<Rightarrow> notebook \<times> error option"

fun block :: "stmt list \<Rightarrow> stmt" where
  "block [] n = (n, None)"
| "block (s # ss) n =
     (case s n of
        (n', None) \<Rightarrow> block ss n'
      | (n', Some e) \<Rightarrow> (n', Some e))"

text \<open>
  \<^verbatim>\<open>try: body except Exception as e: handler\<close>. Every exception of the model is an
  \<^verbatim>\<open>Exception\<close>, so the handler runs for each of them, in the state the body left.
\<close>

definition try_except :: "stmt list \<Rightarrow> stmt list \<Rightarrow> stmt" where
  "try_except body handler n =
     (case block body n of
        (n', None) \<Rightarrow> (n', None)
      | (n', Some e) \<Rightarrow> block handler n')"

definition name :: "string \<Rightarrow> notebook \<Rightarrow> error + pyval" where
  "name x n = (case vars n x of None \<Rightarrow> Inl (NameError x) | Some v \<Rightarrow> Inr v)"

definition assign :: "string \<Rightarrow> pyval \<Rightarrow> notebook \<Rightarrow> notebook" where
  "assign x v n = n\<lparr>vars := (vars n)(x \<mapsto> v)\<rparr>"

definition assign_none :: "string \<Rightarrow> stmt" where
  "assign_none x n = (assign x PyNone n, None)"

definition assign_str :: "string \<Rightarrow> string \<Rightarrow> stmt" where
  "assign_str x s n = (assign x (Str s) n, None)"

text \<open>
  \<^verbatim>\<open>x = xr.open_dataset(os.path.join(data_dir, path))[...]\<close>, followed by the
  operation \<open>f\<close> on the array that was read.
\<close>

definition open_dataset :: "world \<Rightarrow> string \<Rightarrow> string \<Rightarrow> (raster \<Rightarrow> raster) \<Rightarrow> stmt" where
  "open_dataset w x path f n =
     (case datasets w path of
        None \<Rightarrow> (n, Some (FileNotFoundError path))
      | Some r \<Rightarrow> (assign x (DataArray (f r)) n, None))"

fun per_thousand :: "fval \<Rightarrow> fval" where
  "per_thousand (Val v) = Val (v / 1000)"
| "per_thousand NaN = NaN"

text \<open>
  \<^verbatim>\<open>x = fix_lon(x)\<close>. The object \<open>x\<close> was bound to is changed by the call; when the
  call raises, \<open>x\<close> is still bound to it.
\<close>

definition fix_lon_stmt :: "string \<Rightarrow> stmt" where
  "fix_lon_stmt x n =
     (case name x n of
        Inl e \<Rightarrow> (n, Some e)
      | Inr (DataArray r) \<Rightarrow>
          (case fix_lon r of
             (r1, Inl e) \<Rightarrow> (assign x (DataArray r1) n, Some e)
           | (r1, Inr out) \<Rightarrow> (assign x (DataArray out) n, None))
      | Inr _ \<Rightarrow> (n, Some TypeError))"

text \<open>
  \<^verbatim>\<open>x['lat'] = y['lat']\<close> and \<^verbatim>\<open>x['lon'] = y['lon']\<close>: the right-hand side is
  evaluated first; the coordinate values of \<open>x\<close> are replaced, position by position, and
  a coordinate of another length is refused (ValueError).
\<close>

definition set_lat :: "string \<Rightarrow> string \<Rightarrow> stmt" where
  "set_lat x y n =
     (case name y n of
        Inl e \<Rightarrow> (n, Some e)
      | Inr (DataArray src) \<Rightarrow>
          (case name x n of
             Inl e \<Rightarrow> (n, Some e)
           | Inr (DataArray r) \<Rightarrow>
               (if length (lat src) \<noteq> length (lat r) then (n, Some ValueError)
                else (assign x (DataArray (r\<lparr>lat := lat src\<rparr>)) n, None))
           | Inr _ \<Rightarrow> (n, Some TypeError))
      | Inr _ \<Rightarrow> (n, Some TypeError))"

definition set_lon :: "string \<Rightarrow> string \<Rightarrow> stmt" where
  "set_lon x y n =
     (case name y n of
        Inl e \<Rightarrow> (n, Some e)
      | Inr (DataArray src) \<Rightarrow>
          (case name x n of
             Inl e \<Rightarrow> (n, Some e)
           | Inr (DataArray r) \<Rightarrow>
               (if length (lon src) \<noteq> length (lon r) then (n, Some ValueError)
                else (assign x (DataArray (r\<lparr>lon := lon src\<rparr>)) n, None))
           | Inr _ \<Rightarrow> (n, Some TypeError))
      | Inr _ \<Rightarrow> (n, Some TypeError))"

text \<open>Evaluating a name for its value only, as in the list \<^verbatim>\<open>[a, b, c]\<close> of a for loop.\<close>

definition eval_name :: "string \<Rightarrow> stmt" where
  "eval_name x n = (case name x n of Inl e \<Rightarrow> (n, Some e) | Inr _ \<Rightarrow> (n, None))"

text \<open>
  \<^verbatim>\<open>x = mortality(pm, b=b, population=pop)\<close>: the three names are evaluated from left
  to right, then the function runs.
\<close>

definition as_optional_raster :: "pyval \<Rightarrow> error + raster option" where
  "as_optional_raster v =
     (case v of PyNone \<Rightarrow> Inr None | DataArray r \<Rightarrow> Inr (Some r) | _ \<Rightarrow> Inl TypeError)"

definition mortality_stmt :: "string \<Rightarrow> string \<Rightarrow> string \<Rightarrow> string \<Rightarrow> stmt" where
  "mortality_stmt x pm b pop n =
     (case name pm n of
        Inl e \<Rightarrow> (n, Some e)
      | Inr pmv \<Rightarrow>
          (case name b n of
             Inl e \<Rightarrow> (n, Some e)
           | Inr bv \<Rightarrow>
               (case name pop n of
                  Inl e \<Rightarrow> (n, Some e)
                | Inr popv \<Rightarrow>
                    (case (pmv, as_optional_raster bv, as_optional_raster popv) of
                       (DataArray pm25, Inr b', Inr population) \<Rightarrow>
                         (case mortality pm25 b' population of
                            Inl e \<Rightarrow> (n, Some e)
                          | Inr out \<Rightarrow> (assign x (DataArray out) n, None))
                     | _ \<Rightarrow> (n, Some TypeError)))))"

text \<open>\<^verbatim>\<open>x = a - b\<close> on two DataArrays.\<close>

definition raster_sub_stmt :: "string \<Rightarrow> string \<Rightarrow> string \<Rightarrow> stmt" where
  "raster_sub_stmt x a b n =
     (case name a n of
        Inl e \<Rightarrow> (n, Some e)
      | Inr av \<Rightarrow>
          (case name b n of
             Inl e \<Rightarrow> (n, Some e)
           | Inr bv \<Rightarrow>
               (case (av, bv) of
                  (DataArray ra, DataArray rb) \<Rightarrow>
                    (case xr_binop fsub ra rb of
                       Inl e \<Rightarrow> (n, Some e)
                     | Inr out \<Rightarrow> (assign x (DataArray out) n, None))
                | _ \<Rightarrow> (n, Some TypeError))))"

text \<open>
  \<^verbatim>\<open>if a is not None and b is not None: ... else: ...\<close>, and the same test on one name.
\<close>

fun all_not_none :: "string list \<Rightarrow> notebook \<Rightarrow> error + bool" where
  "all_not_none [] n = Inr True"
| "all_not_none (x # xs) n =
     (case name x n of
        Inl e \<Rightarrow> Inl e
      | Inr PyNone \<Rightarrow> Inr False
      | Inr _ \<Rightarrow> all_not_none xs n)"

definition if_not_none :: "string list \<Rightarrow> stmt list \<Rightarrow> stmt list \<Rightarrow> stmt" where
  "if_not_none xs then_branch else_branch n =
     (case all_not_none xs n of
        Inl e \<Rightarrow> (n, Some e)
      | Inr True \<Rightarrow> block then_branch n
      | Inr False \<Rightarrow> block else_branch n)"

text \<open>
  \<^verbatim>\<open>x = sum_within_country(data, countries)\<close>. The arguments are evaluated first; the
  function then copies the data, reads the shapefile's records itself, and runs the loop.
\<close>

definition sum_stmt :: "world \<Rightarrow> string \<Rightarrow> string \<Rightarrow> stmt" where
  "sum_stmt w x d n =
     (case name d n of
        Inl e \<Rightarrow> (n, Some e)
      | Inr dv \<Rightarrow>
          (case name ''countries'' n of
             Inl e \<Rightarrow> (n, Some e)
           | Inr cv \<Rightarrow>
               (case dv of
                  DataArray data \<Rightarrow>
                    (case natural_earth w of
                       None \<Rightarrow> (n, Some (FileNotFoundError ''admin_0_countries''))
                     | Some (geoms, country_info) \<Rightarrow>
                         (case cv of
                            GeometryList countries \<Rightarrow>
                              (case sum_within_country country_info data countries of
                                 Inl e \<Rightarrow> (n, Some e)
                               | Inr series \<Rightarrow> (assign x (Series series) n, None))
                          | _ \<Rightarrow> (n, Some TypeError)))
                | _ \<Rightarrow> (n, Some AttributeError))))"

text \<open>
  \<^verbatim>\<open>s.to_csv(os.path.join(output_dir, file))\<close>: the method is looked up on the
  series first, then \<^verbatim>\<open>output_dir\<close> is evaluated and joined with the file name.
\<close>

definition to_csv :: "string \<Rightarrow> string \<Rightarrow> stmt" where
  "to_csv s file n =
     (case name s n of
        Inl e \<Rightarrow> (n, Some e)
      | Inr (Series series) \<Rightarrow>
          (case name ''output_dir'' n of
             Inl e \<Rightarrow> (n, Some e)
           | Inr (Str dir) \<Rightarrow> (n\<lparr>csv_files := (csv_files n)(file \<mapsto> series)\<rparr>, None)
           | Inr _ \<Rightarrow> (n, Some TypeError))
      | Inr _ \<Rightarrow> (n, Some AttributeError))"

text \<open>
  \<^verbatim>\<open>x = a - b\<close> on two pandas Series. Every Series of the notebook comes from
  \<^verbatim>\<open>sum_within_country\<close> on the same geometry list and the same shapefile, so the two
  operands carry the same index, and pandas subtracts them entry by entry. The alignment
  pandas would make for two different indexes is not modelled; the model marks that case
  with \<open>OutsideModel\<close>.
\<close>

definition series_sub :: "(string \<times> real) list \<Rightarrow> (string \<times> real) list \<Rightarrow> error + (string \<times> real) list" where
  "series_sub a b =
     (if map fst a = map fst b
      then Inr (map (\<lambda>((k, u), (k', v)). (k, u - v)) (zip a b))
      else Inl OutsideModel)"

definition series_sub_stmt :: "string \<Rightarrow> string \<Rightarrow> string \<Rightarrow> stmt" where
  "series_sub_stmt x a b n =
     (case name a n of
        Inl e \<Rightarrow> (n, Some e)
      | Inr av \<Rightarrow>
          (case name b n of
             Inl e \<Rightarrow> (n, Some e)
           | Inr bv \<Rightarrow>
               (case (av, bv) of
                  (Series sa, Series sb) \<Rightarrow>
                    (case series_sub sa sb of
                       Inl e \<Rightarrow> (n, Some e)
                     | Inr out \<Rightarrow> (assign x (Series out) n, None))
                | _ \<Rightarrow> (n, Some TypeError))))"

text \<open>
  Cell 10: the PM2.5 rasters of 2050 and of 2100. Only the handler for 2100 binds the
  two names to \<^verbatim>\<open>None\<close>; the handler for 2050 prints a message and binds nothing.
\<close>

definition cell_10 :: "world \<Rightarrow> stmt" where
  "cell_10 w = block
     [try_except
        [open_dataset w ''baseline_pm25_2050'' ''CESM_09x125_PM25_2050_RCP85.nc'' id,
         open_dataset w ''nofire_pm25_2050'' ''CESM_09x125_PM25_2050_RCP85_NoFire.nc'' id,
         fix_lon_stmt ''baseline_pm25_2050'',
         fix_lon_stmt ''nofire_pm25_2050'']
        [],
      try_except
        [open_dataset w ''baseline_pm25_2100'' ''CESM_09x125_PM25_2100_RCP85.nc'' id,
         open_dataset w ''nofire_pm25_2100'' ''CESM_09x125_PM25_2100_RCP85_NoFire.nc'' id,
         fix_lon_stmt ''baseline_pm25_2100'',
         fix_lon_stmt ''nofire_pm25_2100'']
        [assign_none ''baseline_pm25_2100'',
         assign_none ''nofire_pm25_2100'']]"

text \<open>Cell 11: the PM2.5 rasters of 2000. The handler prints a message and binds nothing.\<close>

definition cell_11 :: "world \<Rightarrow> stmt" where
  "cell_11 w = block
     [try_except
        [open_dataset w ''baseline_pm25_2000'' ''CESM_09x125_PM25_2000_Baseline.nc'' id,
         open_dataset w ''nofire_pm25_2000'' ''CESM_09x125_PM25_2000_Baseline_nofire.nc'' id,
         fix_lon_stmt ''baseline_pm25_2000'',
         fix_lon_stmt ''nofire_pm25_2000'']
        []]"

text \<open>
  Cell 12: the death rate (divided by 1000) and the three population rasters, normalized
  and then given the coordinates of the 2050 PM2.5 raster.
\<close>

definition cell_12 :: "world \<Rightarrow> stmt" where
  "cell_12 w = block
     [try_except
        [open_dataset w ''death_rate'' ''death_rate.nc'' (xr_map per_thousand),
         open_dataset w ''population_2000'' ''ssp2_2000_matching.nc'' id,
         open_dataset w ''population_2050'' ''ssp2_2050_matching.nc'' id,
         open_dataset w ''population_2100'' ''ssp2_2100_matching.nc'' id,
         fix_lon_stmt ''death_rate'',
         fix_lon_stmt ''population_2000'',
         fix_lon_stmt ''population_2050'',
         fix_lon_stmt ''population_2100'',
         set_lat ''death_rate'' ''baseline_pm25_2050'',
         set_lon ''death_rate'' ''baseline_pm25_2050'',
         eval_name ''population_2000'',
         eval_name ''population_2050'',
         eval_name ''population_2100'',
         set_lat ''population_2000'' ''baseline_pm25_2050'',
         set_lon ''population_2000'' ''baseline_pm25_2050'',
         set_lat ''population_2050'' ''baseline_pm25_2050'',
         set_lon ''population_2050'' ''baseline_pm25_2050'',
         set_lat ''population_2100'' ''baseline_pm25_2050'',
         set_lon ''population_2100'' ''baseline_pm25_2050'']
        []]"

text \<open>Cell 14: mortality of 2050. Nothing here is guarded.\<close>

definition cell_14 :: stmt where
  "cell_14 = block
     [mortality_stmt ''baseline_mortality_2050'' ''baseline_pm25_2050'' ''death_rate'' ''population_2050'',
      mortality_stmt ''nofire_mortality_2050'' ''nofire_pm25_2050'' ''death_rate'' ''population_2050'',
      raster_sub_stmt ''difference_mortality_2050'' ''baseline_mortality_2050'' ''nofire_mortality_2050'']"

text \<open>Cell 15: mortality of 2000, unguarded, and of 2100 behind the test for \<^verbatim>\<open>None\<close>.\<close>

definition cell_15 :: stmt where
  "cell_15 = block
     [mortality_stmt ''baseline_mortality_2000'' ''baseline_pm25_2000'' ''death_rate'' ''population_2000'',
      mortality_stmt ''nofire_mortality_2000'' ''nofire_pm25_2000'' ''death_rate'' ''population_2000'',
      raster_sub_stmt ''difference_mortality_2000'' ''baseline_mortality_2000'' ''nofire_mortality_2000'',
      if_not_none [''baseline_pm25_2100'', ''nofire_pm25_2100'']
        [mortality_stmt ''baseline_mortality_2100'' ''baseline_pm25_2100'' ''death_rate'' ''population_2100'',
         mortality_stmt ''nofire_mortality_2100'' ''nofire_pm25_2100'' ''death_rate'' ''population_2100'',
         raster_sub_stmt ''difference_mortality_2100'' ''baseline_mortality_2100'' ''nofire_mortality_2100'']
        [assign_none ''baseline_mortality_2100'',
         assign_none ''nofire_mortality_2100'',
         assign_none ''difference_mortality_2100'']]"

text \<open>Cell 17: the country geometries and records.\<close>

definition load_countries :: "world \<Rightarrow> stmt" where
  "load_countries w n =
     (case natural_earth w of
        None \<Rightarrow> (n, Some (FileNotFoundError ''admin_0_countries''))
      | Some (geoms, recs) \<Rightarrow>
          (assign ''country_info'' (RecordList recs)
             (assign ''countries'' (GeometryList geoms) n), None))"

definition cell_17 :: "world \<Rightarrow> stmt" where
  "cell_17 w = block [try_except [load_countries w] []]"

text \<open>Cell 18: the country sums of 2050 and their CSV files.\<close>

definition cell_18 :: "world \<Rightarrow> stmt" where
  "cell_18 w = block
     [sum_stmt w ''baseline_sums_2050'' ''baseline_mortality_2050'',
      sum_stmt w ''nofire_sums_2050'' ''nofire_mortality_2050'',
      sum_stmt w ''difference_sums_2050'' ''difference_mortality_2050'',
      assign_str ''output_dir'' ''./smoke_data/results'',
      to_csv ''baseline_sums_2050'' ''total_smoke_deaths.csv'',
      to_csv ''nofire_sums_2050'' ''nofire_smoke_deaths.csv'',
      to_csv ''difference_sums_2050'' ''fire_smoke_deaths.csv'']"

text \<open>
  Cell 19: the country sums of 2000, the change from 2000 to 2050, and, behind the test
  for \<^verbatim>\<open>None\<close>, the sums of 2100 and the changes that involve 2100.
\<close>

definition cell_19 :: "world \<Rightarrow> stmt" where
  "cell_19 w = block
     [sum_stmt w ''baseline_sums_2000'' ''baseline_mortality_2000'',
      sum_stmt w ''nofire_sums_2000'' ''nofire_mortality_2000'',
      sum_stmt w ''difference_sums_2000'' ''difference_mortality_2000'',
      to_csv ''baseline_sums_2000'' ''total_smoke_deaths_2000.csv'',
      to_csv ''nofire_sums_2000'' ''nofire_smoke_deaths_2000.csv'',
      to_csv ''difference_sums_2000'' ''fire_smoke_deaths_2000.csv'',
      series_sub_stmt ''change_2000_2050'' ''difference_sums_2050'' ''difference_sums_2000'',
      to_csv ''change_2000_2050'' ''fire_smoke_deaths_change_2000_2050.csv'',
      if_not_none [''difference_mortality_2100'']
        [sum_stmt w ''baseline_sums_2100'' ''baseline_mortality_2100'',
         sum_stmt w ''nofire_sums_2100'' ''nofire_mortality_2100'',
         sum_stmt w ''difference_sums_2100'' ''difference_mortality_2100'',
         to_csv ''baseline_sums_2100'' ''total_smoke_deaths_2100.csv'',
         to_csv ''nofire_sums_2100'' ''nofire_smoke_deaths_2100.csv'',
         to_csv ''difference_sums_2100'' ''fire_smoke_deaths_2100.csv'',
         series_sub_stmt ''change_2050_2100'' ''difference_sums_2100'' ''difference_sums_2050'',
         series_sub_stmt ''change_2000_2100'' ''difference_sums_2100'' ''difference_sums_2000'',
         to_csv ''change_2050_2100'' ''fire_smoke_deaths_change_2050_2100.csv'',
         to_csv ''change_2000_2100'' ''fire_smoke_deaths_change_2000_2100.csv'']
        []]"

text \<open>
  Running the notebook from a fresh kernel: the cells in order, stopping at the first
  cell that raises.
\<close>

definition fresh :: notebook where
  "fresh = \<lparr>vars = Map.empty, csv_files = Map.empty\<rparr>"

definition run_all :: "world \<Rightarrow> notebook \<times> error option" where
  "run_all w =
     block [cell_10 w, cell_11 w, cell_12 w, cell_14, cell_15, cell_17 w, cell_18 w, cell_19 w]
       fresh"

section \<open>Notions used to state the properties\<close>

text \<open>The cells of a raster: each cell centre with the value of the cell, row by row.\<close>

definition cells :: "raster \<Rightarrow> (point \<times> fval) list" where
  "cells d = zip (grid_points d) (ravel (vals d))"

text \<open>A shapefile record that has the attribute \<^verbatim>\<open>NAME\<close>.\<close>

definition has_name :: "country_record \<Rightarrow> bool" where
  "has_name r \<longleftrightarrow> attributes r ''NAME'' \<noteq> None"

text \<open>
  The value a raster holds under a pair of coordinate labels
  (\<^verbatim>\<open>r.sel(lat=la, lon=lo)\<close>).
\<close>

definition cell_at :: "raster \<Rightarrow> real \<Rightarrow> real \<Rightarrow> fval" where
  "cell_at r la lo = vals r ! index_of (lat r) la ! index_of (lon r) lo"

text \<open>
  A statement preserves a property of the notebook's state when the state it leaves has
  the property whenever the state it started in had it, whether or not it raised.
\<close>

definition preserves :: "(notebook \<Rightarrow> bool) \<Rightarrow> stmt \<Rightarrow> bool" where
  "preserves P s \<longleftrightarrow> (\<forall>n. P n \<longrightarrow> P (fst (s n)))"

text \<open>
  The name \<open>x\<close> is unbound and no CSV file has been written.
\<close>

definition unbound_no_csv :: "string \<Rightarrow> notebook \<Rightarrow> bool" where
  "unbound_no_csv x n \<longleftrightarrow> vars n x = None \<and> csv_files n = Map.empty"

text \<open>
  Inputs for the examples: a raster of one cell, centred at longitude 20 and latitude
  10, and a shapefile with one square country around it.
\<close>

abbreviation cell_raster :: "real \<Rightarrow> raster" where
  "cell_raster v \<equiv> \<lparr>lat = [10], lon = [20], aux_coords = Map.empty, vals = [[Val v]]\<rparr>"

abbreviation one_country :: "(geometry list \<times> country_record list) option" where
  "one_country \<equiv>
     Some ([PolygonGeom (Polygon [(0, 0), (40, 0), (40, 40), (0, 40)] [])],
           [\<lparr>attributes = [''NAME'' \<mapsto> ''Fiji'']\<rparr>])"

section \<open>Properties of the Country Aggregator\<close>

subsection \<open>Auxiliary facts\<close>

lemma length_grid_points: "length (grid_points d) = length (lat d) * length (lon d)"
  by (simp add: grid_points_def length_concat comp_def sum_list_triv)

lemma sum_list_const_len:
  "\<forall>row \<in> set vs. length row = n \<Longrightarrow> sum_list (map length vs) = length vs * n"
  by (induction vs) auto

lemma length_ravel: "wf_raster d \<Longrightarrow> length (ravel (vals d)) = length (lat d) * length (lon d)"
  using sum_list_const_len [of "vals d" "length (lon d)"]
  by (simp add: ravel_def length_concat wf_raster_def)

lemma filter_zip_mask:
  "length xs = length ps \<Longrightarrow>
   map fst (filter snd (zip xs (map P ps))) = map snd (filter (\<lambda>(p, v). P p) (zip ps xs))"
  by (induction xs ps rule: list_induct2) auto

lemma grid_points_empty_iff: "grid_points d = [] \<longleftrightarrow> lat d = [] \<or> lon d = []"
  using length_grid_points [of d] by (simp only: length_0_conv [symmetric] mult_is_0)

lemma bool_index_cells:
  "wf_raster d \<Longrightarrow> lat d \<noteq> [] \<Longrightarrow> lon d \<noteq> [] \<Longrightarrow>
   bool_index (ravel (vals d)) (map (contains g) (grid_points d)) =
     Inr (map snd (filter (\<lambda>(p, v). contains g p) (cells d)))"
  by (simp add: bool_index_def grid_points_empty_iff length_grid_points length_ravel
      filter_zip_mask cells_def)

lemma country_loop_no_cells:
  "grid_points d = [] \<Longrightarrow> has_name r \<Longrightarrow> country_loop d ((g, r) # ps) = Inl IndexError"
  by (auto simp: has_name_def bool_index_def)

lemma country_loop_ok:
  "wf_raster d \<Longrightarrow> lat d \<noteq> [] \<Longrightarrow> lon d \<noteq> [] \<Longrightarrow> \<forall>(g, r) \<in> set ps. has_name r \<Longrightarrow>
   country_loop d ps =
     Inr (map (\<lambda>(g, r). (the (attributes r ''NAME''),
                          nansum (map snd (filter (\<lambda>(p, v). contains g p) (cells d))))) ps)"
proof (induction ps)
  case Nil
  then show ?case by simp
next
  case (Cons a ps)
  obtain g r where a: "a = (g, r)" by (cases a)
  from Cons.prems a obtain n where n: "attributes r ''NAME'' = Some n"
    by (auto simp: has_name_def)
  from Cons have IH: "country_loop d ps =
     Inr (map (\<lambda>(g, r). (the (attributes r ''NAME''),
                          nansum (map snd (filter (\<lambda>(p, v). contains g p) (cells d))))) ps)"
    by simp
  show ?case
    by (simp add: a n IH bool_index_cells [OF Cons.prems(1,2,3)])
qed

lemma country_loop_names:
  "country_loop d ps = Inr out \<Longrightarrow>
   map fst out = map (\<lambda>(g, r). the (attributes r ''NAME'')) ps"
proof (induction ps arbitrary: out)
  case Nil
  then show ?case by simp
next
  case (Cons a ps)
  obtain g r where a: "a = (g, r)" by (cases a)
  from Cons.prems show ?case
    by (auto simp: a Let_def split: option.splits sum.splits dest: Cons.IH)
qed

lemma map_zip_snd_take: "map (\<lambda>(g, r). f r) (zip xs ys) = map f (take (length xs) ys)"
proof (induction xs arbitrary: ys)
  case Nil
  then show ?case by simp
next
  case (Cons x xs)
  then show ?case by (cases ys) auto
qed

lemma swc_ok:
  assumes "wf_raster d" "lat d \<noteq> []" "lon d \<noteq> []" "\<forall>r \<in> set country_info. has_name r"
  shows "sum_within_country country_info d countries =
     Inr (map (\<lambda>(g, r). (the (attributes r ''NAME''),
                          nansum (map snd (filter (\<lambda>(p, v). contains g p) (cells d)))))
            (zip countries country_info))"
proof -
  from assms(4) have "\<forall>(g, r) \<in> set (zip countries country_info). has_name r"
    by (auto dest: set_zip_rightD)
  with assms(1,2,3) show ?thesis
    unfolding sum_within_country_def by (rule country_loop_ok)
qed

lemma nansum_all_nan: "\<forall>v \<in> set vs. v = NaN \<Longrightarrow> nansum vs = 0"
  by (induction vs) (auto simp: nansum_def)

lemma nansum_skips_nan: "nansum vs = sum_list (concat (map (\<lambda>v. case v of NaN \<Rightarrow> [] | Val x \<Rightarrow> [x]) vs))"
  by (induction vs) (auto simp: nansum_def split: fval.splits)

lemmas geom_eval = contains_def closed_contains_def in_interior_def on_boundary_def
  on_ring_def inside_ring_def edges_def

lemmas swc_eval = sum_within_country_def grid_points_def ravel_def bool_index_def nansum_def

subsection \<open>Which cells a country's sum includes\<close>

text \<open>
  Claim C2, as the code has it. On a well-formed raster with at least one cell and
  records that carry a name, the value listed for a country is the NaN-skipping sum over exactly those cells whose
  centre satisfies \<open>contains\<close>, and \<open>contains\<close> holds for the points in the interior of
  one of the geometry's polygons, which are never on that polygon's outer ring. The
  specification's closed containment is not what the code evaluates: a cell centre on
  the boundary is left out of the sum.
\<close>

theorem sum_within_country_interior_cells:
  assumes "wf_raster data" and "lat data \<noteq> []" and "lon data \<noteq> []"
    and "\<forall>r \<in> set country_info. has_name r"
  shows "sum_within_country country_info data countries =
     Inr (map (\<lambda>(g, r). (the (attributes r ''NAME''),
                          nansum (map snd (filter (\<lambda>(p, v). contains g p) (cells data)))))
            (zip countries country_info)) \<and>
     (\<forall>g p. contains g p \<longleftrightarrow>
        (\<exists>poly \<in> set (polygons_of g). in_interior poly p \<and> \<not> on_ring p (shell poly)))"
proof -
  have "\<And>g p. contains g p \<longleftrightarrow>
        (\<exists>poly \<in> set (polygons_of g). in_interior poly p \<and> \<not> on_ring p (shell poly))"
    by (auto simp: contains_def list_ex_iff in_interior_def)
  with swc_ok [OF assms] show ?thesis by blast
qed

theorem sum_within_country_interior_cells_witness:
  "wf_raster \<lparr>lat = [1], lon = [1, 2], aux_coords = Map.empty, vals = [[Val 3, Val 5]]\<rparr> \<and>
   lat \<lparr>lat = [1], lon = [1, 2], aux_coords = Map.empty, vals = [[Val 3, Val 5]]\<rparr> \<noteq> [] \<and>
   lon \<lparr>lat = [1], lon = [1, 2], aux_coords = Map.empty, vals = [[Val 3, Val 5]]\<rparr> \<noteq> [] \<and>
   list_all has_name [\<lparr>attributes = [''NAME'' \<mapsto> ''Fiji'']\<rparr>] \<and>
   sum_within_country
     [\<lparr>attributes = [''NAME'' \<mapsto> ''Fiji'']\<rparr>]
     \<lparr>lat = [1], lon = [1, 2], aux_coords = Map.empty, vals = [[Val 3, Val 5]]\<rparr>
     [PolygonGeom (Polygon [(0, 0), (2, 0), (2, 2), (0, 2)] [])]
   = Inr [(''Fiji'', 3)]"
proof -
  let ?d = "\<lparr>lat = [1], lon = [1, 2], aux_coords = Map.empty, vals = [[Val 3, Val 5]]\<rparr>"
  let ?ci = "[\<lparr>attributes = [''NAME'' \<mapsto> ''Fiji'']\<rparr>]"
  let ?g = "PolygonGeom (Polygon [(0, 0), (2, 0), (2, 2), (0, 2)] [])"
  have wf: "wf_raster ?d" by (simp add: wf_raster_def)
  have ne: "lat ?d \<noteq> []" "lon ?d \<noteq> []" by simp_all
  have nm: "\<forall>r \<in> set ?ci. has_name r" by (simp add: has_name_def)
  have in1: "contains ?g (1, 1)" by (simp add: geom_eval)
  have in2: "\<not> contains ?g (2, 1)" by (simp add: geom_eval)
  have c: "cells ?d = [((1, 1), Val 3), ((2, 1), Val 5)]"
    by (simp add: cells_def grid_points_def ravel_def)
  have s: "nansum (map snd (filter (\<lambda>(p, v). contains ?g p) (cells ?d))) = 3"
    using in1 in2 by (simp add: c nansum_def)
  from sum_within_country_interior_cells [OF wf ne nm, of "[?g]"]
  have "sum_within_country ?ci ?d [?g] =
     Inr [(''Fiji'', nansum (map snd (filter (\<lambda>(p, v). contains ?g p) (cells ?d))))]"
    by simp
  then have "sum_within_country ?ci ?d [?g] = Inr [(''Fiji'', 3)]"
    by (simp only: s)
  with wf nm show ?thesis by (simp add: list_all_iff)
qed

text \<open>
  The claim as the specification states it fails on a square with corners \<open>(0, 0)\<close> and
  \<open>(2, 2)\<close>: the cell centred at \<open>(2, 1)\<close> lies on the square's boundary and holds 5,
  the cell at \<open>(1, 1)\<close> lies inside and holds 3, and the country's sum is 3.
\<close>

theorem sum_within_country_boundary_counterexample:
  "((2, 1), Val 5) \<in>
     set (cells \<lparr>lat = [1], lon = [1, 2], aux_coords = Map.empty, vals = [[Val 3, Val 5]]\<rparr>) \<and>
   closed_contains (PolygonGeom (Polygon [(0, 0), (2, 0), (2, 2), (0, 2)] [])) (2, 1) \<and>
   \<not> contains (PolygonGeom (Polygon [(0, 0), (2, 0), (2, 2), (0, 2)] [])) (2, 1) \<and>
   ((1, 1), Val 3) \<in>
     set (cells \<lparr>lat = [1], lon = [1, 2], aux_coords = Map.empty, vals = [[Val 3, Val 5]]\<rparr>) \<and>
   closed_contains (PolygonGeom (Polygon [(0, 0), (2, 0), (2, 2), (0, 2)] [])) (1, 1) \<and>
   sum_within_country
     [\<lparr>attributes = [''NAME'' \<mapsto> ''Fiji'']\<rparr>]
     \<lparr>lat = [1], lon = [1, 2], aux_coords = Map.empty, vals = [[Val 3, Val 5]]\<rparr>
     [PolygonGeom (Polygon [(0, 0), (2, 0), (2, 2), (0, 2)] [])]
   = Inr [(''Fiji'', 3)]"
  by (simp add: cells_def swc_eval geom_eval)

subsection \<open>Pairing geometries with records\<close>

text \<open>
  Claim C3, as the code has it. The loop runs over \<^verbatim>\<open>zip(countries, country_info)\<close>,
  and nothing compares the two lengths: the aggregator gives the same result as on the
  two sequences cut to the length of the shorter one.
\<close>

theorem sum_within_country_truncates:
  "sum_within_country country_info data countries =
   sum_within_country
     (take (min (length countries) (length country_info)) country_info) data
     (take (min (length countries) (length country_info)) countries)"
proof -
  have "zip (take (min (length countries) (length country_info)) countries)
            (take (min (length countries) (length country_info)) country_info) =
        take (min (length countries) (length country_info)) (zip countries country_info)"
    by (simp add: take_zip)
  also have "\<dots> = zip countries country_info"
    by simp
  finally show ?thesis
    by (simp add: sum_within_country_def)
qed

theorem sum_within_country_truncates_witness:
  "sum_within_country
     [\<lparr>attributes = [''NAME'' \<mapsto> ''Fiji'']\<rparr>]
     \<lparr>lat = [1], lon = [1, 6], aux_coords = Map.empty, vals = [[Val 3, Val 5]]\<rparr>
     [PolygonGeom (Polygon [(0, 0), (2, 0), (2, 2), (0, 2)] []),
      PolygonGeom (Polygon [(5, 5), (7, 5), (7, 7), (5, 7)] [])] =
   sum_within_country
     [\<lparr>attributes = [''NAME'' \<mapsto> ''Fiji'']\<rparr>]
     \<lparr>lat = [1], lon = [1, 6], aux_coords = Map.empty, vals = [[Val 3, Val 5]]\<rparr>
     [PolygonGeom (Polygon [(0, 0), (2, 0), (2, 2), (0, 2)] [])]"
  using sum_within_country_truncates
    [of "[\<lparr>attributes = [''NAME'' \<mapsto> ''Fiji'']\<rparr>]"
        "\<lparr>lat = [1], lon = [1, 6], aux_coords = Map.empty, vals = [[Val 3, Val 5]]\<rparr>"
        "[PolygonGeom (Polygon [(0, 0), (2, 0), (2, 2), (0, 2)] []),
          PolygonGeom (Polygon [(5, 5), (7, 5), (7, 7), (5, 7)] [])]"]
  by simp

text \<open>
  Two geometries and one record: the call returns normally, with one entry.
\<close>

theorem sum_within_country_length_mismatch_counterexample:
  "length [PolygonGeom (Polygon [(0, 0), (2, 0), (2, 2), (0, 2)] []),
           PolygonGeom (Polygon [(5, 5), (7, 5), (7, 7), (5, 7)] [])]
     \<noteq> length [\<lparr>attributes = [''NAME'' \<mapsto> ''Fiji'']\<rparr>] \<and>
   sum_within_country
     [\<lparr>attributes = [''NAME'' \<mapsto> ''Fiji'']\<rparr>]
     \<lparr>lat = [1], lon = [1, 6], aux_coords = Map.empty, vals = [[Val 3, Val 5]]\<rparr>
     [PolygonGeom (Polygon [(0, 0), (2, 0), (2, 2), (0, 2)] []),
      PolygonGeom (Polygon [(5, 5), (7, 5), (7, 7), (5, 7)] [])]
   = Inr [(''Fiji'', 3)]"
  by (simp add: swc_eval geom_eval)

subsection \<open>NaN cells\<close>

text \<open>
  Claim C6 on the code: a raster without cells contains no cell centre of any country,
  and there the aggregator does not return 0 for the country, it raises IndexError. Such
  a raster is what \<^verbatim>\<open>mortality\<close> returns for inputs whose longitudes share no label;
  the list of containment tests is then empty, numpy makes a float64 array of it, and
  the indexing that precedes \<^verbatim>\<open>np.nansum\<close> refuses it.
\<close>

theorem sum_within_country_no_cells_raises:
  "grid_points \<lparr>lat = [0], lon = [], aux_coords = Map.empty, vals = [[]]\<rparr> = [] \<and>
   sum_within_country
     [\<lparr>attributes = [''NAME'' \<mapsto> ''Fiji'']\<rparr>]
     \<lparr>lat = [0], lon = [], aux_coords = Map.empty, vals = [[]]\<rparr>
     [PolygonGeom (Polygon [(0, 0), (2, 0), (2, 2), (0, 2)] [])]
   = Inl IndexError"
  by (simp add: swc_eval)

text \<open>The raster of that example, as a result of \<^verbatim>\<open>mortality\<close>.\<close>

lemma mortality_without_common_longitude_example:
  "mortality
     \<lparr>lat = [0], lon = [0], aux_coords = Map.empty, vals = [[Val 7]]\<rparr>
     (Some \<lparr>lat = [0], lon = [1], aux_coords = Map.empty, vals = [[Val 2]]\<rparr>)
     (Some \<lparr>lat = [0], lon = [1], aux_coords = Map.empty, vals = [[Val 10]]\<rparr>) =
   Inr \<lparr>lat = [0], lon = [], aux_coords = Map.empty, vals = [[]]\<rparr>"
  by (simp add: mortality_def xr_binop_def join_positions_def xr_map_def take_along_def
      merge_aux_def)

text \<open>
  On every well-formed raster with at least one cell, and records that carry a name, the
  claim holds: the aggregator returns a series with one entry per paired country; where
  every cell whose centre the country contains holds NaN (in particular where it contains
  no cell centre), the entry is 0; and every entry is the sum of the contained cells that
  hold a number, so NaN cells take no part in any sum.
\<close>

lemma nan_only_country_sums_to_zero:
  assumes "wf_raster data" and "lat data \<noteq> []" and "lon data \<noteq> []"
    and "\<forall>r \<in> set country_info. has_name r"
  shows "\<exists>series. sum_within_country country_info data countries = Inr series \<and>
     length series = min (length countries) (length country_info) \<and>
     (\<forall>k < length series.
        (\<forall>(p, v) \<in> set (cells data). contains (countries ! k) p \<longrightarrow> v = NaN) \<longrightarrow>
        snd (series ! k) = 0) \<and>
     (\<forall>k < length series.
        snd (series ! k) =
          sum_list (concat (map (\<lambda>(p, v). case v of NaN \<Rightarrow> [] | Val x \<Rightarrow> [x])
                      (filter (\<lambda>(p, v). contains (countries ! k) p) (cells data)))))"
proof -
  let ?f = "\<lambda>(g, r). (the (attributes r ''NAME''),
                          nansum (map snd (filter (\<lambda>(p, v). contains g p) (cells data))))"
  let ?series = "map ?f (zip countries country_info)"
  have run: "sum_within_country country_info data countries = Inr ?series"
    by (rule swc_ok [OF assms])
  have len: "length ?series = min (length countries) (length country_info)"
    by simp
  have val: "snd (?series ! k) =
      nansum (map snd (filter (\<lambda>(p, v). contains (countries ! k) p) (cells data)))"
    if "k < length ?series" for k
    using that by simp
  have zero: "snd (?series ! k) = 0"
    if "k < length ?series"
      and "\<forall>(p, v) \<in> set (cells data). contains (countries ! k) p \<longrightarrow> v = NaN" for k
  proof -
    from that(2) have "\<forall>v \<in> set (map snd (filter (\<lambda>(p, v). contains (countries ! k) p) (cells data))). v = NaN"
      by auto
    then show ?thesis
      using val [OF that(1)] by (simp only: nansum_all_nan)
  qed
  have excl: "snd (?series ! k) =
          sum_list (concat (map (\<lambda>(p, v). case v of NaN \<Rightarrow> [] | Val x \<Rightarrow> [x])
                      (filter (\<lambda>(p, v). contains (countries ! k) p) (cells data))))"
    if "k < length ?series" for k
  proof -
    have "(\<lambda>v. case v of NaN \<Rightarrow> [] | Val x \<Rightarrow> [x]) \<circ> snd =
          (\<lambda>(p :: point, v). case v of NaN \<Rightarrow> [] | Val x \<Rightarrow> [x])"
      by (auto simp: fun_eq_iff)
    then show ?thesis
      using val [OF that] by (simp only: nansum_skips_nan map_map)
  qed
  from run len zero excl show ?thesis by blast
qed

lemma nan_only_country_sums_to_zero_example:
  "wf_raster \<lparr>lat = [1], lon = [1, 2, 3], aux_coords = Map.empty, vals = [[NaN, Val 5, Val 7]]\<rparr> \<and>
   list_all has_name [\<lparr>attributes = [''NAME'' \<mapsto> ''Fiji'']\<rparr>] \<and>
   (\<exists>series.
     sum_within_country
       [\<lparr>attributes = [''NAME'' \<mapsto> ''Fiji'']\<rparr>]
       \<lparr>lat = [1], lon = [1, 2, 3], aux_coords = Map.empty, vals = [[NaN, Val 5, Val 7]]\<rparr>
       [PolygonGeom (Polygon [(0, 0), (2, 0), (2, 2), (0, 2)] [])]
     = Inr series \<and> length series = 1 \<and> snd (series ! 0) = 0)"
proof -
  let ?d = "\<lparr>lat = [1], lon = [1, 2, 3], aux_coords = Map.empty, vals = [[NaN, Val 5, Val 7]]\<rparr>"
  let ?ci = "[\<lparr>attributes = [''NAME'' \<mapsto> ''Fiji'']\<rparr>]"
  let ?g = "PolygonGeom (Polygon [(0, 0), (2, 0), (2, 2), (0, 2)] [])"
  have wf: "wf_raster ?d" by (simp add: wf_raster_def)
  have ne: "lat ?d \<noteq> []" "lon ?d \<noteq> []" by simp_all
  have nm: "\<forall>r \<in> set ?ci. has_name r" by (simp add: has_name_def)
  have c: "cells ?d = [((1, 1), NaN), ((2, 1), Val 5), ((3, 1), Val 7)]"
    by (simp add: cells_def grid_points_def ravel_def)
  have out2: "\<not> contains ?g (2, 1)" by (simp add: geom_eval)
  have out3: "\<not> contains ?g (3, 1)" by (simp add: geom_eval)
  have only_nan: "\<forall>(p, v) \<in> set (cells ?d). contains ([?g] ! 0) p \<longrightarrow> v = NaN"
    using out2 out3 by (simp add: c)
  from nan_only_country_sums_to_zero [OF wf ne nm, of "[?g]"]
  obtain series where run: "sum_within_country ?ci ?d [?g] = Inr series"
    and len: "length series = min (length [?g]) (length ?ci)"
    and zero: "\<forall>k < length series.
        (\<forall>(p, v) \<in> set (cells ?d). contains ([?g] ! k) p \<longrightarrow> v = NaN) \<longrightarrow>
        snd (series ! k) = 0"
    by blast
  from len have len1: "length series = 1" by simp
  with zero only_nan have "snd (series ! 0) = 0" by simp
  with run len1 wf nm show ?thesis by (simp add: list_all_iff)
qed

subsection \<open>Where the country names come from\<close>

text \<open>
  Claim C10. Whenever the aggregator returns a series, its names are the \<^verbatim>\<open>NAME\<close>
  attributes of the records of the shapefile that the function reads itself, in the
  shapefile's order, cut to the number of geometries the caller gave; the series has as
  many entries as the shorter of the two lists. The function has no parameter through
  which the caller could pass records.
\<close>

theorem sum_within_country_names:
  assumes "sum_within_country country_info data countries = Inr series"
  shows "map fst series =
           map (\<lambda>r. the (attributes r ''NAME'')) (take (length countries) country_info) \<and>
         length series = min (length countries) (length country_info)"
proof -
  from assms have names: "map fst series =
      map (\<lambda>(g, r). the (attributes r ''NAME'')) (zip countries country_info)"
    by (simp add: sum_within_country_def country_loop_names)
  then have 1: "map fst series =
      map (\<lambda>r. the (attributes r ''NAME'')) (take (length countries) country_info)"
    by (simp add: map_zip_snd_take)
  from names have "length (map fst series) = length (zip countries country_info)"
    by simp
  then have 2: "length series = min (length countries) (length country_info)"
    by simp
  from 1 2 show ?thesis by simp
qed

theorem sum_within_country_names_witness:
  "sum_within_country
     [\<lparr>attributes = [''NAME'' \<mapsto> ''Fiji'']\<rparr>, \<lparr>attributes = [''NAME'' \<mapsto> ''Tanzania'']\<rparr>]
     \<lparr>lat = [1], lon = [1, 2], aux_coords = Map.empty, vals = [[Val 3, Val 5]]\<rparr>
     [PolygonGeom (Polygon [(0, 0), (2, 0), (2, 2), (0, 2)] [])]
   = Inr [(''Fiji'', 3)] \<and>
   map fst [(''Fiji'', 3::real)] =
     map (\<lambda>r. the (attributes r ''NAME''))
       (take (length [PolygonGeom (Polygon [(0, 0), (2, 0), (2, 2), (0, 2)] [])])
          [\<lparr>attributes = [''NAME'' \<mapsto> ''Fiji'']\<rparr>, \<lparr>attributes = [''NAME'' \<mapsto> ''Tanzania'']\<rparr>])"
proof -
  have run: "sum_within_country
     [\<lparr>attributes = [''NAME'' \<mapsto> ''Fiji'']\<rparr>, \<lparr>attributes = [''NAME'' \<mapsto> ''Tanzania'']\<rparr>]
     \<lparr>lat = [1], lon = [1, 2], aux_coords = Map.empty, vals = [[Val 3, Val 5]]\<rparr>
     [PolygonGeom (Polygon [(0, 0), (2, 0), (2, 2), (0, 2)] [])]
   = Inr [(''Fiji'', 3)]"
    by (simp add: swc_eval geom_eval)
  from run sum_within_country_names [OF run] show ?thesis by simp
qed


section \<open>Properties of the Grid Normalizer\<close>

subsection \<open>Auxiliary facts\<close>

lemma index_of_less: "x \<in> set xs \<Longrightarrow> index_of xs x < length xs"
  by (induction xs) auto

lemma nth_index_of: "x \<in> set xs \<Longrightarrow> xs ! index_of xs x = x"
  by (induction xs) auto

lemma index_of_nth: "distinct xs \<Longrightarrow> i < length xs \<Longrightarrow> index_of xs (xs ! i) = i"
proof (induction xs arbitrary: i)
  case Nil
  then show ?case by simp
next
  case (Cons x xs)
  then show ?case by (cases i) auto
qed

lemma map_index_of_self: "distinct xs \<Longrightarrow> map (index_of xs) xs = [0..<length xs]"
  by (rule nth_equalityI) (simp_all add: index_of_nth)

lemma take_along_upt: "length xs = n \<Longrightarrow> take_along [0..<n] xs = xs"
  by (auto simp: take_along_def intro: nth_equalityI)

lemma length_take_along: "length (take_along ps xs) = length ps"
  by (simp add: take_along_def)

lemma sel_positions_sort:
  "distinct adj \<Longrightarrow> sel_positions adj (sort adj) = Inr (map (index_of adj) (sort adj))"
  by (simp add: sel_positions_def)

lemma sort_sorted_id: "sorted xs \<Longrightarrow> sort xs = xs"
  by (simp add: sorted_sort_id)

lemma normalize_not_distinct:
  "\<not> distinct (map adjust_lon (lon ds)) \<Longrightarrow> normalize ds = Inl InvalidIndexError"
  by (simp add: normalize_def fix_lon_def Let_def sel_positions_def)

lemma normalize_cases:
  obtains (repeated) "\<not> distinct (map adjust_lon (lon ds))"
      and "normalize ds = Inl InvalidIndexError"
  | (relabelled) out where "distinct (map adjust_lon (lon ds))"
      and "normalize ds = Inr out"
      and "lat out = lat ds"
      and "lon out = sort (map adjust_lon (lon ds))"
      and "vals out =
             map (take_along (map (index_of (map adjust_lon (lon ds)))
                                (sort (map adjust_lon (lon ds))))) (vals ds)"
      and "aux_coords out =
             (\<lambda>k. map_option
                     (take_along (map (index_of (map adjust_lon (lon ds)))
                                    (sort (map adjust_lon (lon ds)))))
                     (((aux_coords ds)(''_longitude_adjusted'' \<mapsto> map adjust_lon (lon ds))) k))
               (''_longitude_adjusted'' := None)"
proof (cases "distinct (map adjust_lon (lon ds))")
  case False
  then show ?thesis using normalize_not_distinct that(1) by blast
next
  case True
  let ?ps = "map (index_of (map adjust_lon (lon ds))) (sort (map adjust_lon (lon ds)))"
  let ?out = "\<lparr>lat = lat ds, lon = sort (map adjust_lon (lon ds)),
      aux_coords = (\<lambda>k. map_option (take_along ?ps)
                     (((aux_coords ds)(''_longitude_adjusted'' \<mapsto> map adjust_lon (lon ds))) k))
               (''_longitude_adjusted'' := None),
      vals = map (take_along ?ps) (vals ds)\<rparr>"
  have "normalize ds = Inr ?out"
    by (simp add: normalize_def fix_lon_def Let_def sel_positions_sort [OF True])
  then show ?thesis
    by (rule that(2) [of ?out, OF True]) simp_all
qed

lemma wf_relabelled:
  assumes "wf_raster ds"
    and "lon out = sort (map adjust_lon (lon ds))"
    and "lat out = lat ds"
    and "vals out = map (take_along (map (index_of (map adjust_lon (lon ds)))
                                (sort (map adjust_lon (lon ds))))) (vals ds)"
    and "aux_coords out =
             (\<lambda>k. map_option
                     (take_along (map (index_of (map adjust_lon (lon ds)))
                                    (sort (map adjust_lon (lon ds)))))
                     (((aux_coords ds)(''_longitude_adjusted'' \<mapsto> map adjust_lon (lon ds))) k))
               (''_longitude_adjusted'' := None)"
  shows "wf_raster out"
  using assms(1) unfolding wf_raster_def assms(2-5)
  by (auto simp: length_take_along split: if_splits)

lemma relabelled_cell:
  assumes d: "distinct (map adjust_lon (lon ds))"
    and i: "i < length (vals ds)" and j: "j < length (lon ds)"
    and row: "length (vals ds ! i) = length (lon ds)"
    and lo: "lon out = sort (map adjust_lon (lon ds))"
    and vo: "vals out = map (take_along (map (index_of (map adjust_lon (lon ds)))
                                (sort (map adjust_lon (lon ds))))) (vals ds)"
  shows "vals out ! i ! index_of (lon out) (adjust_lon (lon ds ! j)) = vals ds ! i ! j"
proof -
  let ?adj = "map adjust_lon (lon ds)"
  let ?labels = "sort ?adj"
  have mem: "adjust_lon (lon ds ! j) \<in> set ?labels"
    using j by simp
  let ?k = "index_of ?labels (adjust_lon (lon ds ! j))"
  have k: "?k < length ?labels" using mem by (rule index_of_less)
  have lk: "?labels ! ?k = ?adj ! j" using nth_index_of [OF mem] j by simp
  have "vals out ! i ! ?k = vals ds ! i ! index_of ?adj (?labels ! ?k)"
    using i k by (simp add: vo take_along_def)
  also have "index_of ?adj (?labels ! ?k) = j"
    using index_of_nth [OF d, of j] j by (simp only: lk length_map)
  finally show ?thesis by (simp add: lo)
qed

lemma adjust_lon_range: "0 \<le> l \<Longrightarrow> l < 360 \<Longrightarrow> - 180 < adjust_lon l \<and> adjust_lon l \<le> 180"
  by (simp add: adjust_lon_def)

lemma adjust_lon_fixed: "l \<le> 180 \<Longrightarrow> adjust_lon l = l"
  by (simp add: adjust_lon_def)

lemma adjust_lon_le: "l \<le> 540 \<Longrightarrow> adjust_lon l \<le> 180"
  by (simp add: adjust_lon_def)

lemma map_adjust_lon_fixed: "\<forall>l \<in> set xs. l \<le> 180 \<Longrightarrow> map adjust_lon xs = xs"
  by (induction xs) (auto simp: adjust_lon_fixed)

lemma normalize_fixed_point:
  assumes wf: "wf_raster out" and srt: "sorted (lon out)" and d: "distinct (lon out)"
    and le: "\<forall>l \<in> set (lon out). l \<le> 180"
    and no_adj: "aux_coords out ''_longitude_adjusted'' = None"
  shows "normalize out = Inr out"
proof -
  have adj: "map adjust_lon (lon out) = lon out"
    by (rule map_adjust_lon_fixed [OF le])
  have labels: "sort (lon out) = lon out"
    by (rule sort_sorted_id [OF srt])
  have ps: "map (index_of (lon out)) (lon out) = [0..<length (lon out)]"
    by (rule map_index_of_self [OF d])
  have rows: "map (take_along [0..<length (lon out)]) (vals out) = vals out"
    using wf by (auto simp: wf_raster_def take_along_upt intro: map_idI)
  have aux: "(\<lambda>k. map_option (take_along [0..<length (lon out)])
                  (((aux_coords out)(''_longitude_adjusted'' \<mapsto> lon out)) k))
               (''_longitude_adjusted'' := None) = aux_coords out"
  proof
    fix k
    show "((\<lambda>k. map_option (take_along [0..<length (lon out)])
                  (((aux_coords out)(''_longitude_adjusted'' \<mapsto> lon out)) k))
               (''_longitude_adjusted'' := None)) k = aux_coords out k"
    proof (cases "aux_coords out k")
      case None
      then show ?thesis using no_adj by simp
    next
      case (Some c)
      with wf have "length c = length (lon out)" by (simp add: wf_raster_def)
      then have "take_along [0..<length (lon out)] c = c" by (rule take_along_upt)
      with Some no_adj show ?thesis by auto
    qed
  qed
  have "normalize out =
      Inr \<lparr>lat = lat out, lon = lon out,
           aux_coords = (\<lambda>k. map_option (take_along [0..<length (lon out)])
                  (((aux_coords out)(''_longitude_adjusted'' \<mapsto> lon out)) k))
               (''_longitude_adjusted'' := None),
           vals = map (take_along [0..<length (lon out)]) (vals out)\<rparr>"
    using d by (simp add: normalize_def fix_lon_def Let_def adj labels sel_positions_def ps)
  also have "\<dots> = Inr out"
    by (simp only: rows aux) simp
  finally show ?thesis .
qed

lemmas fix_lon_eval = normalize_def normalize_twice_def fix_lon_def sel_positions_def
  take_along_def adjust_lon_def Let_def

subsection \<open>The result is a relabelling\<close>

text \<open>
  Claim C5, as the code has it. For a well-formed raster whose adjusted longitudes are
  pairwise different, \<^verbatim>\<open>fix_lon\<close> returns a well-formed raster with the same latitudes,
  whose longitudes are the adjusted ones (\<open>l - 360\<close> where \<open>l > 180\<close>, else \<open>l\<close>) sorted
  ascending without repetition, with as many rows and columns as the input, and in which
  the cell found under the new label of a column holds what the input held in that
  column. Longitudes given in \<open>[0, 360)\<close> end in \<open>(-180, 180]\<close>: the test is
  \<^verbatim>\<open>> 180\<close>, so 180 itself stays 180 and the bound \<open>[-180, 180)\<close> of the specification
  does not hold.
\<close>

theorem fix_lon_relabels:
  assumes "wf_raster ds" and "distinct (map adjust_lon (lon ds))"
  shows "\<exists>out. normalize ds = Inr out \<and> wf_raster out \<and>
     lat out = lat ds \<and>
     lon out = sort (map adjust_lon (lon ds)) \<and>
     sorted (lon out) \<and> distinct (lon out) \<and>
     length (lon out) = length (lon ds) \<and>
     length (vals out) = length (vals ds) \<and>
     (\<forall>i < length (lat ds). \<forall>j < length (lon ds).
        vals out ! i ! index_of (lon out) (adjust_lon (lon ds ! j)) = vals ds ! i ! j) \<and>
     ((\<forall>l \<in> set (lon ds). 0 \<le> l \<and> l < 360) \<longrightarrow>
      (\<forall>l \<in> set (lon out). - 180 < l \<and> l \<le> 180))"
proof (cases ds rule: normalize_cases)
  case repeated
  with assms(2) show ?thesis by simp
next
  case (relabelled out)
  have wf: "wf_raster out"
    by (rule wf_relabelled [OF assms(1) relabelled(4,3,5,6)])
  have len: "length (vals out) = length (vals ds)"
    by (simp add: relabelled(5))
  have srt: "sorted (lon out)" "distinct (lon out)" "length (lon out) = length (lon ds)"
    using assms(2) by (simp_all add: relabelled(4))
  have cell: "vals out ! i ! index_of (lon out) (adjust_lon (lon ds ! j)) = vals ds ! i ! j"
    if "i < length (lat ds)" "j < length (lon ds)" for i j
  proof -
    from that(1) assms(1) have i: "i < length (vals ds)" by (simp add: wf_raster_def)
    with assms(1) have "length (vals ds ! i) = length (lon ds)" by (simp add: wf_raster_def)
    from relabelled_cell [OF assms(2) i that(2) this relabelled(4,5)] show ?thesis .
  qed
  have range: "\<forall>l \<in> set (lon out). - 180 < l \<and> l \<le> 180"
    if "\<forall>l \<in> set (lon ds). 0 \<le> l \<and> l < 360"
    using that adjust_lon_range by (auto simp: relabelled(4))
  from relabelled(2,3,4) wf len srt cell range show ?thesis by blast
qed

theorem fix_lon_relabels_witness:
  "wf_raster \<lparr>lat = [0], lon = [0, 190], aux_coords = Map.empty, vals = [[Val 1, Val 2]]\<rparr> \<and>
   distinct (map adjust_lon
     (lon \<lparr>lat = [0], lon = [0, 190], aux_coords = Map.empty, vals = [[Val 1, Val 2]]\<rparr>)) \<and>
   (\<exists>out. normalize \<lparr>lat = [0], lon = [0, 190], aux_coords = Map.empty,
                        vals = [[Val 1, Val 2]]\<rparr> = Inr out \<and>
      lon out = [- 170, 0] \<and> vals out ! 0 ! 0 = Val 2)"
proof -
  let ?d = "\<lparr>lat = [0], lon = [0, 190], aux_coords = Map.empty, vals = [[Val 1, Val 2]]\<rparr>"
  have wf: "wf_raster ?d" by (simp add: wf_raster_def)
  have dist: "distinct (map adjust_lon (lon ?d))" by (simp add: adjust_lon_def)
  from fix_lon_relabels [OF wf dist]
  obtain out where run: "normalize ?d = Inr out"
    and lo: "lon out = sort (map adjust_lon (lon ?d))"
    and cell: "\<forall>i < length (lat ?d). \<forall>j < length (lon ?d).
        vals out ! i ! index_of (lon out) (adjust_lon (lon ?d ! j)) = vals ?d ! i ! j"
    by blast
  from lo have lo': "lon out = [- 170, 0]" by (simp add: adjust_lon_def)
  from cell [rule_format, of 0 1]
  have "vals out ! 0 ! index_of (lon out) (adjust_lon (lon ?d ! 1)) = vals ?d ! 0 ! 1"
    by simp
  then have "vals out ! 0 ! 0 = Val 2" by (simp add: lo' adjust_lon_def)
  with wf dist run lo' show ?thesis by blast
qed

text \<open>
  A raster with the longitudes 0 and 180 comes back unchanged: 180 is among the
  longitudes of the result.
\<close>

theorem fix_lon_keeps_180_counterexample:
  "normalize \<lparr>lat = [0], lon = [0, 180], aux_coords = Map.empty, vals = [[Val 1, Val 2]]\<rparr> =
     Inr \<lparr>lat = [0], lon = [0, 180], aux_coords = Map.empty, vals = [[Val 1, Val 2]]\<rparr> \<and>
   \<not> (180 :: real) < 180"
  by (simp add: fix_lon_eval fun_eq_iff)

subsection \<open>The caller's object\<close>

text \<open>
  Claim C8 on the code: the object passed to \<^verbatim>\<open>fix_lon\<close> is not left as it was. After
  the call it carries the coordinate \<^verbatim>\<open>_longitude_adjusted\<close>, which it did not have
  before; its latitudes, longitudes and values are the old ones.
\<close>

theorem fix_lon_mutates_input:
  "fst (fix_lon \<lparr>lat = [0], lon = [0, 190], aux_coords = Map.empty, vals = [[Val 1, Val 2]]\<rparr>) =
     \<lparr>lat = [0], lon = [0, 190], aux_coords = [''_longitude_adjusted'' \<mapsto> [0, - 170]],
      vals = [[Val 1, Val 2]]\<rparr> \<and>
   aux_coords (fst (fix_lon \<lparr>lat = [0], lon = [0, 190], aux_coords = Map.empty,
                             vals = [[Val 1, Val 2]]\<rparr>)) ''_longitude_adjusted'' \<noteq>
   aux_coords \<lparr>lat = [0], lon = [0, 190], aux_coords = Map.empty, vals = [[Val 1, Val 2]]\<rparr>
     ''_longitude_adjusted''"
  by (simp add: fix_lon_def adjust_lon_def Let_def)

subsection \<open>Normalizing twice\<close>

text \<open>
  One subtraction of 360 brings every longitude up to 540 to a value that is at most 180,
  so on such a raster a second pass changes nothing; when the first pass raises, so does
  the composition, with the same exception.
\<close>

lemma normalize_twice_up_to_540:
  assumes "wf_raster ds" and "\<forall>l \<in> set (lon ds). l \<le> 540"
  shows "normalize_twice ds = normalize ds"
proof (cases ds rule: normalize_cases)
  case repeated
  then show ?thesis by (simp add: normalize_twice_def)
next
  case (relabelled out)
  have wf: "wf_raster out"
    by (rule wf_relabelled [OF assms(1) relabelled(4,3,5,6)])
  have srt: "sorted (lon out)" "distinct (lon out)"
    using relabelled(1) by (simp_all add: relabelled(4))
  have le: "\<forall>l \<in> set (lon out). l \<le> 180"
    using assms(2) adjust_lon_le by (auto simp: relabelled(4))
  have no_adj: "aux_coords out ''_longitude_adjusted'' = None"
    by (simp add: relabelled(6))
  have "normalize out = Inr out"
    by (rule normalize_fixed_point [OF wf srt le no_adj])
  with relabelled(2) show ?thesis by (simp add: normalize_twice_def)
qed

text \<open>
  Claim C9. For every well-formed raster whose longitudes follow the \<open>[0, 360)\<close>
  convention, the \<open>[-180, 180)\<close> convention or a mix of the two, that is, lie in
  \<open>[-180, 360)\<close>, normalizing the result of the normalizer again gives the same result
  as normalizing once.
\<close>

theorem normalize_idempotent:
  assumes "wf_raster ds" and "\<forall>l \<in> set (lon ds). - 180 \<le> l \<and> l < 360"
  shows "normalize_twice ds = normalize ds"
proof -
  from assms(2) have "\<forall>l \<in> set (lon ds). l \<le> 540" by auto
  with assms(1) show ?thesis by (rule normalize_twice_up_to_540)
qed

theorem normalize_idempotent_witness:
  "wf_raster \<lparr>lat = [0], lon = [0, 190], aux_coords = Map.empty, vals = [[Val 1, Val 2]]\<rparr> \<and>
   list_all (\<lambda>l. - 180 \<le> l \<and> l < 360)
     (lon \<lparr>lat = [0], lon = [0, 190], aux_coords = Map.empty, vals = [[Val 1, Val 2]]\<rparr>) \<and>
   normalize_twice \<lparr>lat = [0], lon = [0, 190], aux_coords = Map.empty, vals = [[Val 1, Val 2]]\<rparr> =
     Inr \<lparr>lat = [0], lon = [- 170, 0], aux_coords = Map.empty, vals = [[Val 2, Val 1]]\<rparr>"
proof -
  let ?d = "\<lparr>lat = [0], lon = [0, 190], aux_coords = Map.empty, vals = [[Val 1, Val 2]]\<rparr>"
  have wf: "wf_raster ?d" by (simp add: wf_raster_def)
  have dom: "\<forall>l \<in> set (lon ?d). - 180 \<le> l \<and> l < 360" by simp
  have once: "normalize ?d =
      Inr \<lparr>lat = [0], lon = [- 170, 0], aux_coords = Map.empty, vals = [[Val 2, Val 1]]\<rparr>"
    by (simp add: fix_lon_eval fun_eq_iff)
  from normalize_idempotent [OF wf dom] once
  have "normalize_twice ?d =
      Inr \<lparr>lat = [0], lon = [- 170, 0], aux_coords = Map.empty, vals = [[Val 2, Val 1]]\<rparr>"
    by (simp only:)
  with wf dom show ?thesis by (simp add: list_all_iff)
qed


section \<open>Properties of the Mortality Calculator\<close>

subsection \<open>Auxiliary facts\<close>

lemma join_positions_same: "join_positions xs xs = Inr (map (\<lambda>i. (i, i)) [0..<length xs])"
  by (simp add: join_positions_def)

lemma take_along_fst_diag: "take_along (map (fst \<circ> (\<lambda>i. (i, i))) [0..<length xs]) xs = xs"
  by (simp add: comp_def take_along_upt)

lemma xr_binop_same_grid:
  assumes "lat a = lat b" and "lon a = lon b"
  shows "\<exists>t. xr_binop f a b = Inr t \<and> lat t = lat a \<and> lon t = lon a \<and>
     length (vals t) = length (lat a) \<and>
     (\<forall>i < length (lat a). length (vals t ! i) = length (lon a) \<and>
        (\<forall>j < length (lon a). vals t ! i ! j = f (vals a ! i ! j) (vals b ! i ! j)))"
  using assms
  by (simp add: xr_binop_def join_positions_same take_along_fst_diag)

lemma join_positions_distinct:
  assumes "distinct xs" and "distinct ys"
  shows "join_positions xs ys =
     Inr (map (\<lambda>l. (index_of xs l, index_of ys l)) (filter (\<lambda>l. l \<in> set ys) xs))"
proof (cases "xs = ys")
  case True
  have "map (\<lambda>i. (i, i)) [0..<length ys] = map (\<lambda>l. (index_of ys l, index_of ys l)) ys"
    using assms(2) by (intro nth_equalityI) (simp_all add: index_of_nth)
  with True show ?thesis by (simp add: join_positions_def)
next
  case False
  with assms show ?thesis by (simp add: join_positions_def)
qed

lemma take_along_index_of:
  "set js \<subseteq> set xs \<Longrightarrow> take_along (map (index_of xs) js) xs = js"
  by (induction js) (auto simp: take_along_def nth_index_of)

lemma take_along_index_of_filter:
  "take_along (map (index_of xs) (filter P xs)) xs = filter P xs"
  by (rule take_along_index_of) auto

lemma xr_binop_distinct:
  assumes "distinct (lat a)" and "distinct (lat b)" and "distinct (lon a)" and "distinct (lon b)"
  shows "\<exists>t. xr_binop f a b = Inr t \<and>
     lat t = filter (\<lambda>l. l \<in> set (lat b)) (lat a) \<and>
     lon t = filter (\<lambda>l. l \<in> set (lon b)) (lon a) \<and>
     vals t = map (\<lambda>la. map (\<lambda>lo. f (cell_at a la lo) (cell_at b la lo))
                            (filter (\<lambda>l. l \<in> set (lon b)) (lon a)))
                (filter (\<lambda>l. l \<in> set (lat b)) (lat a))"
  by (simp add: xr_binop_def join_positions_distinct [OF assms(1,2)]
      join_positions_distinct [OF assms(3,4)] take_along_index_of_filter comp_def cell_at_def)

lemma cell_at_table:
  assumes "lat t = las" and "lon t = los"
    and "vals t = map (\<lambda>la. map (\<lambda>lo. g la lo) los) las"
    and "la \<in> set las" and "lo \<in> set los"
  shows "cell_at t la lo = g la lo"
  using assms index_of_less [of la las] index_of_less [of lo los]
  by (simp add: cell_at_def nth_index_of)

lemma cell_at_xr_map:
  assumes "wf_raster c" and "la \<in> set (lat c)" and "lo \<in> set (lon c)"
  shows "cell_at (xr_map g c) la lo = g (cell_at c la lo)"
proof -
  from assms(1,2) have i: "index_of (lat c) la < length (vals c)"
    by (simp add: wf_raster_def index_of_less)
  with assms(1,3) have "index_of (lon c) lo < length (vals c ! index_of (lat c) la)"
    by (simp add: wf_raster_def index_of_less)
  with i show ?thesis by (simp add: cell_at_def xr_map_def)
qed

lemmas mortality_eval = mortality_def xr_binop_def join_positions_def xr_map_def
  take_along_def merge_aux_def response_def

subsection \<open>The formula on aligned rasters\<close>

text \<open>
  Claim C1. For three well-formed rasters with the same latitude and longitude arrays,
  \<^verbatim>\<open>mortality\<close> returns a raster on that grid whose value at every cell \<open>(i, j)\<close> is
  \<open>rate[i,j] * (1 - exp(-1.1 * concentration[i,j])) * population[i,j]\<close>, in the
  arithmetic where NaN propagates; where the three cells hold numbers, it is that real
  number, with the constant 1.1.
\<close>

theorem mortality_formula:
  assumes "wf_raster concentration" and "wf_raster rate" and "wf_raster population"
    and "lat rate = lat concentration" and "lon rate = lon concentration"
    and "lat population = lat concentration" and "lon population = lon concentration"
  shows "\<exists>out. mortality concentration (Some rate) (Some population) = Inr out \<and>
     lat out = lat concentration \<and> lon out = lon concentration \<and>
     (\<forall>i < length (lat concentration). \<forall>j < length (lon concentration).
        vals out ! i ! j =
          fmul (fmul (vals rate ! i ! j)
                  (fsub (Val 1) (fexp (fmul (Val (- 1.1)) (vals concentration ! i ! j)))))
               (vals population ! i ! j)) \<and>
     (\<forall>i < length (lat concentration). \<forall>j < length (lon concentration). \<forall>c r p.
        vals concentration ! i ! j = Val c \<and> vals rate ! i ! j = Val r \<and>
        vals population ! i ! j = Val p \<longrightarrow>
        vals out ! i ! j = Val (r * (1 - exp (- 1.1 * c)) * p))"
proof -
  let ?e = "xr_map response concentration"
  have e_coords: "lat rate = lat ?e" "lon rate = lon ?e"
    using assms(4,5) by (simp_all add: xr_map_def)
  from xr_binop_same_grid [OF e_coords, of fmul]
  obtain t where t: "xr_binop fmul rate ?e = Inr t"
    and t_lat: "lat t = lat rate" and t_lon: "lon t = lon rate"
    and t_val: "\<forall>i < length (lat rate). length (vals t ! i) = length (lon rate) \<and>
        (\<forall>j < length (lon rate). vals t ! i ! j = fmul (vals rate ! i ! j) (vals ?e ! i ! j))"
    by blast
  have tp: "lat t = lat population" "lon t = lon population"
    using assms(4-7) t_lat t_lon by simp_all
  from xr_binop_same_grid [OF tp, of fmul]
  obtain out where out: "xr_binop fmul t population = Inr out"
    and o_lat: "lat out = lat t" and o_lon: "lon out = lon t"
    and o_val: "\<forall>i < length (lat t). length (vals out ! i) = length (lon t) \<and>
        (\<forall>j < length (lon t). vals out ! i ! j = fmul (vals t ! i ! j) (vals population ! i ! j))"
    by blast
  have run: "mortality concentration (Some rate) (Some population) = Inr out"
    by (simp add: mortality_def t out)
  have cell: "vals out ! i ! j =
          fmul (fmul (vals rate ! i ! j)
                  (fsub (Val 1) (fexp (fmul (Val (- 1.1)) (vals concentration ! i ! j)))))
               (vals population ! i ! j)"
    if i: "i < length (lat concentration)" and j: "j < length (lon concentration)" for i j
  proof -
    from i assms(1) have iv: "i < length (vals concentration)" by (simp add: wf_raster_def)
    with assms(1) j have jv: "j < length (vals concentration ! i)" by (simp add: wf_raster_def)
    have e: "vals ?e ! i ! j = response (vals concentration ! i ! j)"
      using iv jv by (simp add: xr_map_def)
    from i j o_val t_lat t_lon assms(4,5)
    have "vals out ! i ! j = fmul (vals t ! i ! j) (vals population ! i ! j)" by simp
    also from i j t_val assms(4,5)
    have "vals t ! i ! j = fmul (vals rate ! i ! j) (vals ?e ! i ! j)" by simp
    finally show ?thesis by (simp add: e response_def)
  qed
  have num: "vals out ! i ! j = Val (r * (1 - exp (- 1.1 * c)) * p)"
    if "i < length (lat concentration)" and "j < length (lon concentration)"
      and "vals concentration ! i ! j = Val c \<and> vals rate ! i ! j = Val r \<and>
        vals population ! i ! j = Val p" for i j c r p
    using cell [OF that(1,2)] that(3) by simp
  from run o_lat o_lon t_lat t_lon assms(4,5) cell num show ?thesis by (intro exI [of _ out]) auto
qed

theorem mortality_formula_witness:
  "wf_raster \<lparr>lat = [0, 1], lon = [0, 1], aux_coords = Map.empty,
              vals = [[Val 10, Val 0], [Val 0, Val 0]]\<rparr> \<and>
   wf_raster \<lparr>lat = [0, 1], lon = [0, 1], aux_coords = Map.empty,
              vals = [[Val 0.01, Val 0.01], [Val 0.01, Val 0.01]]\<rparr> \<and>
   wf_raster \<lparr>lat = [0, 1], lon = [0, 1], aux_coords = Map.empty,
              vals = [[Val 1000, Val 1000], [Val 1000, Val 1000]]\<rparr> \<and>
   (\<exists>out.
      mortality
        \<lparr>lat = [0, 1], lon = [0, 1], aux_coords = Map.empty,
         vals = [[Val 10, Val 0], [Val 0, Val 0]]\<rparr>
        (Some \<lparr>lat = [0, 1], lon = [0, 1], aux_coords = Map.empty,
               vals = [[Val 0.01, Val 0.01], [Val 0.01, Val 0.01]]\<rparr>)
        (Some \<lparr>lat = [0, 1], lon = [0, 1], aux_coords = Map.empty,
               vals = [[Val 1000, Val 1000], [Val 1000, Val 1000]]\<rparr>) = Inr out \<and>
      vals out ! 0 ! 0 = Val (0.01 * (1 - exp (- 1.1 * 10)) * 1000) \<and>
      vals out ! 1 ! 1 = Val 0)"
proof -
  let ?c = "\<lparr>lat = [0, 1], lon = [0, 1], aux_coords = Map.empty,
              vals = [[Val 10, Val 0], [Val 0, Val 0]]\<rparr>"
  let ?r = "\<lparr>lat = [0, 1], lon = [0, 1], aux_coords = Map.empty,
              vals = [[Val 0.01, Val 0.01], [Val 0.01, Val 0.01]]\<rparr>"
  let ?p = "\<lparr>lat = [0, 1], lon = [0, 1], aux_coords = Map.empty,
              vals = [[Val 1000, Val 1000], [Val 1000, Val 1000]]\<rparr>"
  have wf: "wf_raster ?c" "wf_raster ?r" "wf_raster ?p"
    by (simp_all add: wf_raster_def)
  have al: "lat ?r = lat ?c" "lon ?r = lon ?c" "lat ?p = lat ?c" "lon ?p = lon ?c"
    by simp_all
  from mortality_formula [OF wf al]
  obtain out where run: "mortality ?c (Some ?r) (Some ?p) = Inr out"
    and num: "\<forall>i < length (lat ?c). \<forall>j < length (lon ?c). \<forall>c r p.
        vals ?c ! i ! j = Val c \<and> vals ?r ! i ! j = Val r \<and> vals ?p ! i ! j = Val p \<longrightarrow>
        vals out ! i ! j = Val (r * (1 - exp (- 1.1 * c)) * p)"
    by blast
  from num [rule_format, of 0 0 10 "0.01" 1000]
  have c00: "vals out ! 0 ! 0 = Val (0.01 * (1 - exp (- 1.1 * 10)) * 1000)"
    by simp
  from num [rule_format, of 1 1 0 "0.01" 1000]
  have c11: "vals out ! 1 ! 1 = Val 0"
    by simp
  from wf run c00 c11 show ?thesis by blast
qed

subsection \<open>Rasters on different grids\<close>

text \<open>
  Claim C4, as the code has it. \<^verbatim>\<open>mortality\<close> compares no coordinates and raises no
  ShapeMismatchError. For rasters whose coordinate arrays have no repeated value, whether
  or not the arrays of the three agree, it returns a raster on the labels that the rate
  raster shares with both others (xarray's inner join), and under each such pair of labels
  the value is the formula applied to the cells the three inputs hold under those labels.
  Nothing is broadcast or interpolated; cells under labels that are not shared are dropped.
\<close>

theorem mortality_inner_join:
  assumes "wf_raster concentration"
    and "distinct (lat concentration)" and "distinct (lon concentration)"
    and "distinct (lat rate)" and "distinct (lon rate)"
    and "distinct (lat population)" and "distinct (lon population)"
  shows "\<exists>out. mortality concentration (Some rate) (Some population) = Inr out \<and>
     lat out = filter (\<lambda>l. l \<in> set (lat concentration) \<and> l \<in> set (lat population)) (lat rate) \<and>
     lon out = filter (\<lambda>l. l \<in> set (lon concentration) \<and> l \<in> set (lon population)) (lon rate) \<and>
     (\<forall>la \<in> set (lat out). \<forall>lo \<in> set (lon out).
        cell_at out la lo =
          fmul (fmul (cell_at rate la lo)
                  (fsub (Val 1) (fexp (fmul (Val (- 1.1)) (cell_at concentration la lo)))))
               (cell_at population la lo))"
proof -
  let ?e = "xr_map response concentration"
  have e: "lat ?e = lat concentration" "lon ?e = lon concentration"
    by (simp_all add: xr_map_def)
  let ?la1 = "filter (\<lambda>l. l \<in> set (lat concentration)) (lat rate)"
  let ?lo1 = "filter (\<lambda>l. l \<in> set (lon concentration)) (lon rate)"
  from xr_binop_distinct [of rate ?e fmul] assms(2-5)
  obtain t where t: "xr_binop fmul rate ?e = Inr t"
    and t_lat: "lat t = ?la1" and t_lon: "lon t = ?lo1"
    and t_val: "vals t = map (\<lambda>la. map (\<lambda>lo. fmul (cell_at rate la lo) (cell_at ?e la lo)) ?lo1) ?la1"
    by (auto simp: e)
  have dt: "distinct (lat t)" "distinct (lon t)"
    using assms(4,5) by (simp_all add: t_lat t_lon)
  let ?la2 = "filter (\<lambda>l. l \<in> set (lat population)) (lat t)"
  let ?lo2 = "filter (\<lambda>l. l \<in> set (lon population)) (lon t)"
  from xr_binop_distinct [OF dt(1) assms(6) dt(2) assms(7), of fmul]
  obtain out where out: "xr_binop fmul t population = Inr out"
    and o_lat: "lat out = ?la2" and o_lon: "lon out = ?lo2"
    and o_val: "vals out = map (\<lambda>la. map (\<lambda>lo. fmul (cell_at t la lo) (cell_at population la lo)) ?lo2) ?la2"
    by blast
  have run: "mortality concentration (Some rate) (Some population) = Inr out"
    by (simp add: mortality_def t out)
  have lat_eq: "lat out =
      filter (\<lambda>l. l \<in> set (lat concentration) \<and> l \<in> set (lat population)) (lat rate)"
    by (simp add: o_lat t_lat conj_commute)
  have lon_eq: "lon out =
      filter (\<lambda>l. l \<in> set (lon concentration) \<and> l \<in> set (lon population)) (lon rate)"
    by (simp add: o_lon t_lon conj_commute)
  have cell: "cell_at out la lo =
          fmul (fmul (cell_at rate la lo)
                  (fsub (Val 1) (fexp (fmul (Val (- 1.1)) (cell_at concentration la lo)))))
               (cell_at population la lo)"
    if la: "la \<in> set (lat out)" and lo: "lo \<in> set (lon out)" for la lo
  proof -
    from la lo have in2: "la \<in> set ?la2" "lo \<in> set ?lo2"
      by (simp_all add: o_lat o_lon)
    then have in1: "la \<in> set ?la1" "lo \<in> set ?lo1"
      by (simp_all add: t_lat t_lon)
    then have inc: "la \<in> set (lat concentration)" "lo \<in> set (lon concentration)"
      by simp_all
    have "cell_at out la lo = fmul (cell_at t la lo) (cell_at population la lo)"
      by (rule cell_at_table [OF o_lat o_lon o_val in2])
    also have "cell_at t la lo = fmul (cell_at rate la lo) (cell_at ?e la lo)"
      by (rule cell_at_table [OF t_lat t_lon t_val in1])
    also have "cell_at ?e la lo = response (cell_at concentration la lo)"
      by (rule cell_at_xr_map [OF assms(1) inc])
    finally show ?thesis by (simp add: response_def)
  qed
  from run lat_eq lon_eq cell show ?thesis by blast
qed

theorem mortality_inner_join_witness:
  "wf_raster \<lparr>lat = [0], lon = [0, 1], aux_coords = Map.empty, vals = [[Val 0, Val 7]]\<rparr> \<and>
   (\<exists>out.
      mortality
        \<lparr>lat = [0], lon = [0, 1], aux_coords = Map.empty, vals = [[Val 0, Val 7]]\<rparr>
        (Some \<lparr>lat = [0], lon = [1, 2], aux_coords = Map.empty, vals = [[Val 2, Val 3]]\<rparr>)
        (Some \<lparr>lat = [0], lon = [1, 2, 3], aux_coords = Map.empty,
               vals = [[Val 10, Val 20, Val 30]]\<rparr>) = Inr out \<and>
      lat out = [0] \<and> lon out = [1] \<and>
      cell_at out 0 1 = Val (2 * (1 - exp (- 1.1 * 7)) * 10))"
proof -
  let ?c = "\<lparr>lat = [0], lon = [0, 1], aux_coords = Map.empty, vals = [[Val 0, Val 7]]\<rparr>"
  let ?r = "\<lparr>lat = [0], lon = [1, 2], aux_coords = Map.empty, vals = [[Val 2, Val 3]]\<rparr>"
  let ?p = "\<lparr>lat = [0], lon = [1, 2, 3], aux_coords = Map.empty,
               vals = [[Val 10, Val 20, Val 30]]\<rparr>"
  have wf: "wf_raster ?c" by (simp add: wf_raster_def)
  have d: "distinct (lat ?c)" "distinct (lon ?c)" "distinct (lat ?r)" "distinct (lon ?r)"
    "distinct (lat ?p)" "distinct (lon ?p)"
    by simp_all
  from mortality_inner_join [OF wf d]
  obtain out where run: "mortality ?c (Some ?r) (Some ?p) = Inr out"
    and la: "lat out = filter (\<lambda>l. l \<in> set (lat ?c) \<and> l \<in> set (lat ?p)) (lat ?r)"
    and lo: "lon out = filter (\<lambda>l. l \<in> set (lon ?c) \<and> l \<in> set (lon ?p)) (lon ?r)"
    and cell: "\<forall>la \<in> set (lat out). \<forall>lo \<in> set (lon out).
        cell_at out la lo =
          fmul (fmul (cell_at ?r la lo)
                  (fsub (Val 1) (fexp (fmul (Val (- 1.1)) (cell_at ?c la lo)))))
               (cell_at ?p la lo)"
    by blast
  from la have la': "lat out = [0]" by simp
  from lo have lo': "lon out = [1]" by simp
  from cell la' lo' have "cell_at out 0 1 =
          fmul (fmul (cell_at ?r 0 1)
                  (fsub (Val 1) (fexp (fmul (Val (- 1.1)) (cell_at ?c 0 1)))))
               (cell_at ?p 0 1)"
    by simp
  then have "cell_at out 0 1 = Val (2 * (1 - exp (- 1.1 * 7)) * 10)"
    by (simp add: cell_at_def)
  with wf run la' lo' show ?thesis by blast
qed

text \<open>
  Longitudes \<open>[0, 1]\<close>, \<open>[1, 2]\<close> and \<open>[1, 2, 3]\<close>: the call returns the one column
  under the label 1.
\<close>

theorem mortality_grid_mismatch_counterexample:
  "lon \<lparr>lat = [0], lon = [0, 1], aux_coords = Map.empty, vals = [[Val 0, Val 7]]\<rparr> \<noteq>
   lon \<lparr>lat = [0], lon = [1, 2], aux_coords = Map.empty, vals = [[Val 2, Val 3]]\<rparr> \<and>
   mortality
     \<lparr>lat = [0], lon = [0, 1], aux_coords = Map.empty, vals = [[Val 0, Val 7]]\<rparr>
     (Some \<lparr>lat = [0], lon = [1, 2], aux_coords = Map.empty, vals = [[Val 2, Val 3]]\<rparr>)
     (Some \<lparr>lat = [0], lon = [1, 2, 3], aux_coords = Map.empty,
            vals = [[Val 10, Val 20, Val 30]]\<rparr>) =
   Inr \<lparr>lat = [0], lon = [1], aux_coords = Map.empty,
        vals = [[Val (2 * (1 - exp (- 1.1 * 7)) * 10)]]\<rparr>"
  by (simp add: mortality_eval)


section \<open>Properties of the Scenario Pipeline\<close>

subsection \<open>Auxiliary facts\<close>

lemma block_Cons_cases:
  "block (s # ss) n = (if snd (s n) = None then block ss (fst (s n)) else s n)"
  by (cases "s n") (auto split: option.splits)

lemma preserves_block:
  "\<forall>s \<in> set ss. preserves P s \<Longrightarrow> preserves P (block ss)"
proof (induction ss)
  case Nil
  then show ?case by (simp add: preserves_def)
next
  case (Cons s ss)
  then have s: "preserves P s" and ss: "preserves P (block ss)" by simp_all
  show ?case
    unfolding preserves_def
  proof (intro allI impI)
    fix n assume "P n"
    with s have "P (fst (s n))" by (simp add: preserves_def)
    with ss have "P (fst (block ss (fst (s n))))" by (simp add: preserves_def)
    with \<open>P (fst (s n))\<close> show "P (fst (block (s # ss) n))"
      by (simp only: block_Cons_cases split: if_splits) simp
  qed
qed

lemma preserves_try_except:
  assumes "\<forall>s \<in> set body. preserves P s" and "\<forall>s \<in> set handler. preserves P s"
  shows "preserves P (try_except body handler)"
proof -
  from assms have b: "preserves P (block body)" and h: "preserves P (block handler)"
    by (simp_all add: preserves_block)
  show ?thesis
    unfolding preserves_def
  proof (intro allI impI)
    fix n assume "P n"
    with b have 1: "P (fst (block body n))" by (simp add: preserves_def)
    with h have 2: "P (fst (block handler (fst (block body n))))" by (simp add: preserves_def)
    from 1 2 show "P (fst (try_except body handler n))"
      by (cases "block body n") (auto simp: try_except_def split: option.splits)
  qed
qed

lemma preserves_open_dataset:
  "y \<noteq> x \<Longrightarrow> preserves (unbound_no_csv x) (open_dataset w y path f)"
  by (auto simp: preserves_def unbound_no_csv_def open_dataset_def assign_def split: option.splits)

lemma preserves_fix_lon_stmt:
  "y \<noteq> x \<Longrightarrow> preserves (unbound_no_csv x) (fix_lon_stmt y)"
  by (auto simp: preserves_def unbound_no_csv_def fix_lon_stmt_def assign_def
      split: sum.splits pyval.splits prod.splits)

lemma preserves_set_lat:
  "y \<noteq> x \<Longrightarrow> preserves (unbound_no_csv x) (set_lat y z)"
  by (auto simp: preserves_def unbound_no_csv_def set_lat_def assign_def
      split: sum.splits pyval.splits)

lemma preserves_set_lon:
  "y \<noteq> x \<Longrightarrow> preserves (unbound_no_csv x) (set_lon y z)"
  by (auto simp: preserves_def unbound_no_csv_def set_lon_def assign_def
      split: sum.splits pyval.splits)

lemma preserves_eval_name: "preserves P (eval_name y)"
  by (auto simp: preserves_def eval_name_def split: sum.splits)

lemma preserves_assign_none:
  "y \<noteq> x \<Longrightarrow> preserves (unbound_no_csv x) (assign_none y)"
  by (auto simp: preserves_def unbound_no_csv_def assign_none_def assign_def)

lemma preserves_mortality_stmt:
  "y \<noteq> x \<Longrightarrow> preserves (unbound_no_csv x) (mortality_stmt y pm b pop)"
  by (auto simp: preserves_def unbound_no_csv_def mortality_stmt_def assign_def
      split: sum.splits pyval.splits)

lemma preserves_raster_sub_stmt:
  "y \<noteq> x \<Longrightarrow> preserves (unbound_no_csv x) (raster_sub_stmt y a b)"
  by (auto simp: preserves_def unbound_no_csv_def raster_sub_stmt_def assign_def
      split: sum.splits pyval.splits)

lemmas preserves_stmts = preserves_block preserves_try_except preserves_open_dataset
  preserves_fix_lon_stmt preserves_set_lat preserves_set_lon preserves_eval_name
  preserves_assign_none preserves_mortality_stmt preserves_raster_sub_stmt

lemma preserves_cell_10: "preserves (unbound_no_csv ''baseline_pm25_2000'') (cell_10 w)"
  unfolding cell_10_def by (simp add: preserves_stmts)

lemma preserves_cell_12: "preserves (unbound_no_csv ''baseline_pm25_2000'') (cell_12 w)"
  unfolding cell_12_def by (simp add: preserves_stmts)

lemma preserves_cell_14: "preserves (unbound_no_csv ''baseline_pm25_2000'') cell_14"
  unfolding cell_14_def by (simp add: preserves_stmts)

lemma cell_11_missing:
  assumes "datasets w ''CESM_09x125_PM25_2000_Baseline.nc'' = None"
  shows "cell_11 w n = (n, None)"
  using assms by (simp add: cell_11_def try_except_def open_dataset_def)

lemma cell_15_unbound:
  assumes "vars n ''baseline_pm25_2000'' = None"
  shows "cell_15 n = (n, Some (NameError ''baseline_pm25_2000''))"
  using assms by (simp add: cell_15_def mortality_stmt_def name_def)

lemmas pipeline_eval = run_all_def fresh_def cell_10_def cell_11_def cell_12_def cell_14_def
  cell_15_def cell_17_def cell_18_def cell_19_def try_except_def open_dataset_def
  fix_lon_stmt_def set_lat_def set_lon_def eval_name_def mortality_stmt_def
  as_optional_raster_def raster_sub_stmt_def if_not_none_def sum_stmt_def to_csv_def
  series_sub_def series_sub_stmt_def load_countries_def name_def assign_def assign_none_def
  assign_str_def

subsection \<open>A year whose rasters are missing\<close>

text \<open>
  Claim C7 on the code: when the baseline PM2.5 raster of 2000 cannot be read, the run
  does not skip the year. The handler of cell 11 binds nothing, so the first statement of
  cell 15 (if no earlier cell has raised) raises NameError; either way the run ends with
  an exception before any CSV file is written, those of 2050 included.
\<close>

theorem run_all_raises_without_2000:
  assumes "datasets w ''CESM_09x125_PM25_2000_Baseline.nc'' = None"
  shows "snd (run_all w) \<noteq> None \<and> csv_files (fst (run_all w)) = Map.empty"
proof -
  let ?P = "unbound_no_csv ''baseline_pm25_2000''"
  let ?rest = "[cell_17 w, cell_18 w, cell_19 w]"
  have goal: "snd r \<noteq> None \<and> csv_files (fst r) = Map.empty"
    if "snd r \<noteq> None" and "?P (fst r)" for r
    using that by (simp add: unbound_no_csv_def)
  have p0: "?P fresh" by (simp add: unbound_no_csv_def fresh_def)
  let ?n1 = "fst (cell_10 w fresh)"
  have p1: "?P ?n1" using preserves_cell_10 p0 by (simp add: preserves_def)
  let ?n3 = "fst (cell_12 w ?n1)"
  have p3: "?P ?n3" using preserves_cell_12 p1 by (simp add: preserves_def)
  let ?n4 = "fst (cell_14 ?n3)"
  have p4: "?P ?n4" using preserves_cell_14 p3 by (simp add: preserves_def)
  have c15: "cell_15 ?n4 = (?n4, Some (NameError ''baseline_pm25_2000''))"
    using p4 by (simp add: cell_15_unbound unbound_no_csv_def)
  have from15: "block (cell_15 # ?rest) ?n4 = (?n4, Some (NameError ''baseline_pm25_2000''))"
    by (simp add: c15)
  have from14: "snd (block (cell_14 # cell_15 # ?rest) ?n3) \<noteq> None \<and>
      ?P (fst (block (cell_14 # cell_15 # ?rest) ?n3))"
    using p4 from15 by (simp only: block_Cons_cases [of cell_14] split: if_splits) simp
  have from12: "snd (block (cell_12 w # cell_14 # cell_15 # ?rest) ?n1) \<noteq> None \<and>
      ?P (fst (block (cell_12 w # cell_14 # cell_15 # ?rest) ?n1))"
    using p3 from14 by (simp only: block_Cons_cases [of "cell_12 w"] split: if_splits) simp
  have from11: "block (cell_11 w # cell_12 w # cell_14 # cell_15 # ?rest) ?n1 =
      block (cell_12 w # cell_14 # cell_15 # ?rest) ?n1"
    by (simp add: cell_11_missing [OF assms])
  have from10: "snd (run_all w) \<noteq> None \<and> ?P (fst (run_all w))"
    unfolding run_all_def
    using p1 from12 from11 by (simp only: block_Cons_cases [of "cell_10 w"] split: if_splits) simp
  then show ?thesis by (simp add: unbound_no_csv_def)
qed

theorem run_all_raises_without_2000_witness:
  "datasets
     \<lparr>datasets = map_of
        [(''CESM_09x125_PM25_2050_RCP85.nc'', cell_raster 6),
         (''CESM_09x125_PM25_2050_RCP85_NoFire.nc'', cell_raster 5),
         (''CESM_09x125_PM25_2100_RCP85.nc'', cell_raster 8),
         (''CESM_09x125_PM25_2100_RCP85_NoFire.nc'', cell_raster 7),
         (''death_rate.nc'', cell_raster 9),
         (''ssp2_2000_matching.nc'', cell_raster 100),
         (''ssp2_2050_matching.nc'', cell_raster 200),
         (''ssp2_2100_matching.nc'', cell_raster 300)],
      natural_earth = one_country\<rparr> ''CESM_09x125_PM25_2000_Baseline.nc'' = None \<and>
   snd (run_all
     \<lparr>datasets = map_of
        [(''CESM_09x125_PM25_2050_RCP85.nc'', cell_raster 6),
         (''CESM_09x125_PM25_2050_RCP85_NoFire.nc'', cell_raster 5),
         (''CESM_09x125_PM25_2100_RCP85.nc'', cell_raster 8),
         (''CESM_09x125_PM25_2100_RCP85_NoFire.nc'', cell_raster 7),
         (''death_rate.nc'', cell_raster 9),
         (''ssp2_2000_matching.nc'', cell_raster 100),
         (''ssp2_2050_matching.nc'', cell_raster 200),
         (''ssp2_2100_matching.nc'', cell_raster 300)],
      natural_earth = one_country\<rparr>) \<noteq> None \<and>
   csv_files (fst (run_all
     \<lparr>datasets = map_of
        [(''CESM_09x125_PM25_2050_RCP85.nc'', cell_raster 6),
         (''CESM_09x125_PM25_2050_RCP85_NoFire.nc'', cell_raster 5),
         (''CESM_09x125_PM25_2100_RCP85.nc'', cell_raster 8),
         (''CESM_09x125_PM25_2100_RCP85_NoFire.nc'', cell_raster 7),
         (''death_rate.nc'', cell_raster 9),
         (''ssp2_2000_matching.nc'', cell_raster 100),
         (''ssp2_2050_matching.nc'', cell_raster 200),
         (''ssp2_2100_matching.nc'', cell_raster 300)],
      natural_earth = one_country\<rparr>)) = Map.empty"
proof -
  let ?w = "\<lparr>datasets = map_of
        [(''CESM_09x125_PM25_2050_RCP85.nc'', cell_raster 6),
         (''CESM_09x125_PM25_2050_RCP85_NoFire.nc'', cell_raster 5),
         (''CESM_09x125_PM25_2100_RCP85.nc'', cell_raster 8),
         (''CESM_09x125_PM25_2100_RCP85_NoFire.nc'', cell_raster 7),
         (''death_rate.nc'', cell_raster 9),
         (''ssp2_2000_matching.nc'', cell_raster 100),
         (''ssp2_2050_matching.nc'', cell_raster 200),
         (''ssp2_2100_matching.nc'', cell_raster 300)],
      natural_earth = one_country\<rparr>"
  have missing: "datasets ?w ''CESM_09x125_PM25_2000_Baseline.nc'' = None"
    by simp
  from missing run_all_raises_without_2000 [OF missing] show ?thesis
    by (simp only:) simp
qed

text \<open>
  On the example where only the two PM2.5 files of 2000 are missing, the exception is the
  NameError of cell 15; the mortality of 2050 has been computed by then, that of 2100 has
  not, and nothing has been written.
\<close>

lemma run_all_without_2000_example:
  "(case run_all
     \<lparr>datasets = map_of
        [(''CESM_09x125_PM25_2050_RCP85.nc'', cell_raster 6),
         (''CESM_09x125_PM25_2050_RCP85_NoFire.nc'', cell_raster 5),
         (''CESM_09x125_PM25_2100_RCP85.nc'', cell_raster 8),
         (''CESM_09x125_PM25_2100_RCP85_NoFire.nc'', cell_raster 7),
         (''death_rate.nc'', cell_raster 9),
         (''ssp2_2000_matching.nc'', cell_raster 100),
         (''ssp2_2050_matching.nc'', cell_raster 200),
         (''ssp2_2100_matching.nc'', cell_raster 300)],
      natural_earth = one_country\<rparr> of
      (n, e) \<Rightarrow>
        e = Some (NameError ''baseline_pm25_2000'') \<and>
        vars n ''difference_mortality_2050'' \<noteq> None \<and>
        vars n ''difference_mortality_2100'' = None \<and>
        csv_files n = Map.empty)"
  by (simp add: pipeline_eval fix_lon_eval mortality_eval)

text \<open>
  The PM2.5 rasters of 2100 are the ones the notebook guards: where only they are
  missing, the run ends without an exception, the files of 2050 and 2000 and the change
  between them are written, and the files of 2100 and of the changes that involve 2100
  are not.
\<close>

lemma run_all_without_2100_example:
  "(case run_all
     \<lparr>datasets = map_of
        [(''CESM_09x125_PM25_2050_RCP85.nc'', cell_raster 6),
         (''CESM_09x125_PM25_2050_RCP85_NoFire.nc'', cell_raster 5),
         (''CESM_09x125_PM25_2000_Baseline.nc'', cell_raster 4),
         (''CESM_09x125_PM25_2000_Baseline_nofire.nc'', cell_raster 3),
         (''death_rate.nc'', cell_raster 9),
         (''ssp2_2000_matching.nc'', cell_raster 100),
         (''ssp2_2050_matching.nc'', cell_raster 200),
         (''ssp2_2100_matching.nc'', cell_raster 300)],
      natural_earth = one_country\<rparr> of
      (n, e) \<Rightarrow>
        e = None \<and>
        csv_files n ''fire_smoke_deaths.csv'' \<noteq> None \<and>
        csv_files n ''fire_smoke_deaths_2000.csv'' \<noteq> None \<and>
        csv_files n ''fire_smoke_deaths_change_2000_2050.csv'' \<noteq> None \<and>
        csv_files n ''fire_smoke_deaths_2100.csv'' = None \<and>
        csv_files n ''fire_smoke_deaths_change_2050_2100.csv'' = None \<and>
        csv_files n ''fire_smoke_deaths_change_2000_2100.csv'' = None)"
  by (simp add: pipeline_eval fix_lon_eval mortality_eval swc_eval geom_eval)


end
